theory Spec2Isabelle
  imports Main
begin

section \<open>The preferences endpoint of tmarks\<close>

text \<open>
  A shallow embedding of \<^verbatim>\<open>functions/api/v1/preferences.ts\<close>: the two schema probes
  \<^verbatim>\<open>hasTagLayoutColumn\<close> and \<^verbatim>\<open>hasSortByColumn\<close>, and the handlers
  \<^verbatim>\<open>onRequestGet\<close> and \<^verbatim>\<open>onRequestPatch\<close> (the second element of each exported
  array; \<^verbatim>\<open>requireAuth\<close> runs before it and supplies \<^verbatim>\<open>context.data.user_id\<close>, which
  is the handlers' \<open>userId\<close> argument here).

  The D1 database is the handlers' only state. It is passed in and returned. Every
  \<^verbatim>\<open>await db.prepare(...)...\<close> of the source is one store statement; a statement either
  returns or throws, and a thrown value is the \<open>Inl\<close> of a sum.
\<close>

subsection \<open>Rows, request bodies, responses\<close>

text \<open>
  \<^verbatim>\<open>interface UserPreferences\<close>: a row as \<^verbatim>\<open>SELECT *\<close> returns it. The two optional
  fields are \<open>None\<close> when the fetched object has them \<^verbatim>\<open>null\<close> or \<^verbatim>\<open>undefined\<close>.
  The string-literal unions of the interface are \<open>string\<close>: the handler validates them at
  run time, so any string can arrive. \<^verbatim>\<open>number\<close> is \<open>int\<close>: page sizes are whole
  numbers, and a JSON number with a fraction is outside this model.
\<close>

record UserPreferences =
  user_id :: string
  theme :: string
  page_size :: int
  view_mode :: string
  density :: string
  tag_layout :: "string option"
  sort_by :: "string option"
  updated_at :: string

text \<open>
  \<^verbatim>\<open>interface UpdatePreferencesRequest\<close>: each field optional; \<open>None\<close> is
  \<^verbatim>\<open>undefined\<close> (the key is not in the JSON body). A supplied field holds a string, or
  a number for \<^verbatim>\<open>page_size\<close>, as the interface declares; \<^verbatim>\<open>null\<close> and values of
  other JSON types are outside this model.
\<close>

record UpdatePreferencesRequest =
  req_theme :: "string option"
  req_page_size :: "int option"
  req_view_mode :: "string option"
  req_density :: "string option"
  req_tag_layout :: "string option"
  req_sort_by :: "string option"

text \<open>The object under the key \<^verbatim>\<open>preferences\<close> of a success response.\<close>

record PreferencesBody =
  res_theme :: string
  res_page_size :: int
  res_view_mode :: string
  res_density :: string
  res_tag_layout :: string
  res_sort_by :: string
  res_updated_at :: string

text \<open>
  The four helpers of \<^verbatim>\<open>lib/response\<close> the handlers return through: 200, 400, 404 and
  500, the last three with their message.
\<close>

datatype response =
    success PreferencesBody
  | badRequest string
  | notFound string
  | internalError string

text \<open>
  A value caught by \<^verbatim>\<open>catch (error)\<close>: an \<^verbatim>\<open>Error\<close> object with its message, or
  any other thrown value.
\<close>

datatype thrown = Error string | NotAnError

subsection \<open>The case-insensitive pattern test\<close>

text \<open>
  \<^verbatim>\<open>/no such column: tag_layout/i.test(error.message)\<close>: a literal pattern with the
  \<^verbatim>\<open>i\<close> flag and no anchors matches when it matches at some position of the text. Without
  the \<^verbatim>\<open>u\<close> flag two characters are equal under \<^verbatim>\<open>i\<close> when their upper-case forms
  are, and a non-ASCII character is never mapped to an ASCII one; so for this ASCII pattern
  only \<^verbatim>\<open>a\<close>..\<^verbatim>\<open>z\<close> fold, onto \<^verbatim>\<open>A\<close>..\<^verbatim>\<open>Z\<close>. Strings are bytes here: a
  non-ASCII character is a run of bytes above 127, none of which equals a pattern byte.
\<close>

definition canonicalize :: "char \<Rightarrow> char" where
  "canonicalize c =
     (case map_of (zip ''abcdefghijklmnopqrstuvwxyz'' ''ABCDEFGHIJKLMNOPQRSTUVWXYZ'') c of
        None \<Rightarrow> c
      | Some u \<Rightarrow> u)"

fun match_here :: "string \<Rightarrow> string \<Rightarrow> bool" where
  "match_here [] cs = True"
| "match_here (p # ps) [] = False"
| "match_here (p # ps) (c # cs) = (canonicalize p = canonicalize c \<and> match_here ps cs)"

fun regex_test_i :: "string \<Rightarrow> string \<Rightarrow> bool" where
  "regex_test_i pat [] = match_here pat []"
| "regex_test_i pat (c # cs) = (match_here pat (c # cs) \<or> regex_test_i pat cs)"

text \<open>
  The specification's wording of the same test, "a case-insensitive substring check",
  written without reference to the code's matcher. Two characters are the same letter when
  they are equal, or when one is a small ASCII letter, a to z, and the other is its
  capital, whose code is 32 below. The pattern is a substring of the message, letter case put
  aside, when the message has a contiguous part of the pattern's length whose characters
  are, one by one, the same letters as the pattern's.
\<close>

definition ascii_lower :: "char \<Rightarrow> bool" where
  "ascii_lower c = (c \<in> set ''abcdefghijklmnopqrstuvwxyz'')"

definition same_letter :: "char \<Rightarrow> char \<Rightarrow> bool" where
  "same_letter c d =
     (c = d \<or>
      (ascii_lower c \<and> (of_char c :: nat) = of_char d + 32) \<or>
      (ascii_lower d \<and> (of_char d :: nat) = of_char c + 32))"

definition ci_substring :: "string \<Rightarrow> string \<Rightarrow> bool" where
  "ci_substring pat msg =
     (\<exists>pre mid suf. msg = pre @ mid @ suf \<and> list_all2 same_letter pat mid)"

subsection \<open>The store\<close>

text \<open>
  D1 is a collaborator of the module, not part of it. What follows is the behaviour of it
  that the handlers rely on: a table of rows, a schema that has or lacks the two optional
  columns, and statements that may throw.
\<close>

text \<open>
  One \<^verbatim>\<open>column = ?\<close> of the \<^verbatim>\<open>updates\<close> array together with the value pushed on
  \<^verbatim>\<open>values\<close> beside it.
\<close>

datatype assignment =
    SetTheme string
  | SetPageSize int
  | SetViewMode string
  | SetDensity string
  | SetTagLayout string
  | SetSortBy string
  | SetUpdatedAt string

text \<open>
  The four statements the module prepares:
  \<^verbatim>\<open>SELECT tag_layout FROM user_preferences LIMIT 1\<close>,
  \<^verbatim>\<open>SELECT sort_by FROM user_preferences LIMIT 1\<close>,
  \<^verbatim>\<open>SELECT * FROM user_preferences WHERE user_id = ?\<close> and
  \<^verbatim>\<open>UPDATE user_preferences SET ... WHERE user_id = ?\<close>.
\<close>

datatype statement =
    SelectTagLayout
  | SelectSortBy
  | SelectByUserId string
  | UpdateByUserId "assignment list" string

text \<open>
  The database: the table \<^verbatim>\<open>user_preferences\<close> keyed by \<^verbatim>\<open>user_id\<close>; whether the
  two columns of the migration (\<^verbatim>\<open>ALTER TABLE user_preferences ADD COLUMN tag_layout\<close>,
  \<^verbatim>\<open>... ADD COLUMN sort_by\<close>) are there; the failures the store is going to have, one
  entry per coming statement (\<open>Some e\<close>: that statement throws \<open>e\<close>; \<open>None\<close> or no entry
  left: it runs); and the statements executed so far, oldest first.
\<close>

record D1Database =
  rows :: "string \<Rightarrow> UserPreferences option"
  has_tag_layout :: bool
  has_sort_by :: bool
  faults :: "thrown option list"
  executed :: "statement list"

text \<open>
  What the store throws for a statement that names a column the table does not have:
  SQLite's \<^verbatim>\<open>no such column: NAME\<close>, in D1's wrapping.
\<close>

definition no_such_column :: "string \<Rightarrow> thrown" where
  "no_such_column name = Error (''D1_ERROR: no such column: '' @ name @ '': SQLITE_ERROR'')"

text \<open>The failure due at the next statement, if any.\<close>

definition pending :: "D1Database \<Rightarrow> thrown option" where
  "pending db = (case faults db of [] \<Rightarrow> None | f # fs \<Rightarrow> f)"

text \<open>
  Every statement, failing or not, is recorded and uses up the entry of \<open>faults\<close> that
  was due for it.
\<close>

definition advance :: "statement \<Rightarrow> D1Database \<Rightarrow> D1Database" where
  "advance s db = db\<lparr>faults := drop 1 (faults db), executed := executed db @ [s]\<rparr>"

text \<open>Issuing a statement: the failure due for it, and the store after it.\<close>

definition issue :: "statement \<Rightarrow> D1Database \<Rightarrow> thrown option \<times> D1Database" where
  "issue s db = (pending db, advance s db)"

text \<open>
  The two probe reads. A read of a column the table lacks throws the store's report of
  it; the row the read returns, if any, is not used by the module.
\<close>

definition select_tag_layout :: "D1Database \<Rightarrow> (thrown + unit) \<times> D1Database" where
  "select_tag_layout db =
     (case issue SelectTagLayout db of
        (Some e, db') \<Rightarrow> (Inl e, db')
      | (None, db') \<Rightarrow>
          if has_tag_layout db then (Inr (), db') else (Inl (no_such_column ''tag_layout''), db'))"

definition select_sort_by :: "D1Database \<Rightarrow> (thrown + unit) \<times> D1Database" where
  "select_sort_by db =
     (case issue SelectSortBy db of
        (Some e, db') \<Rightarrow> (Inl e, db')
      | (None, db') \<Rightarrow>
          if has_sort_by db then (Inr (), db') else (Inl (no_such_column ''sort_by''), db'))"

text \<open>
  \<^verbatim>\<open>SELECT *\<close> returns the columns the table has: on a table without
  \<^verbatim>\<open>tag_layout\<close> (or \<^verbatim>\<open>sort_by\<close>) the fetched object has no such property.
\<close>

definition fetched :: "D1Database \<Rightarrow> UserPreferences \<Rightarrow> UserPreferences" where
  "fetched db r =
     r\<lparr>tag_layout := (if has_tag_layout db then tag_layout r else None),
       sort_by := (if has_sort_by db then sort_by r else None)\<rparr>"

definition select_by_user_id ::
  "string \<Rightarrow> D1Database \<Rightarrow> (thrown + UserPreferences option) \<times> D1Database" where
  "select_by_user_id userId db =
     (case issue (SelectByUserId userId) db of
        (Some e, db') \<Rightarrow> (Inl e, db')
      | (None, db') \<Rightarrow> (Inr (map_option (fetched db) (rows db userId)), db'))"

text \<open>What one assignment of an \<^verbatim>\<open>UPDATE\<close> does to the row it is applied to.\<close>

fun assign :: "UserPreferences \<Rightarrow> assignment \<Rightarrow> UserPreferences" where
  "assign r (SetTheme v) = r\<lparr>theme := v\<rparr>"
| "assign r (SetPageSize n) = r\<lparr>page_size := n\<rparr>"
| "assign r (SetViewMode v) = r\<lparr>view_mode := v\<rparr>"
| "assign r (SetDensity v) = r\<lparr>density := v\<rparr>"
| "assign r (SetTagLayout v) = r\<lparr>tag_layout := Some v\<rparr>"
| "assign r (SetSortBy v) = r\<lparr>sort_by := Some v\<rparr>"
| "assign r (SetUpdatedAt v) = r\<lparr>updated_at := v\<rparr>"

text \<open>The first column an \<^verbatim>\<open>UPDATE\<close> names that the table does not have.\<close>

fun missing_column :: "D1Database \<Rightarrow> assignment list \<Rightarrow> string option" where
  "missing_column db [] = None"
| "missing_column db (SetTagLayout v # as) =
     (if has_tag_layout db then missing_column db as else Some ''tag_layout'')"
| "missing_column db (SetSortBy v # as) =
     (if has_sort_by db then missing_column db as else Some ''sort_by'')"
| "missing_column db (a # as) = missing_column db as"

text \<open>
  The \<^verbatim>\<open>UPDATE\<close>: it changes the row of \<open>userId\<close> when there is one, and no row
  otherwise; a statement that throws changes nothing.
\<close>

definition update_by_user_id ::
  "assignment list \<Rightarrow> string \<Rightarrow> D1Database \<Rightarrow> (thrown + unit) \<times> D1Database" where
  "update_by_user_id updates userId db =
     (case issue (UpdateByUserId updates userId) db of
        (Some e, db') \<Rightarrow> (Inl e, db')
      | (None, db') \<Rightarrow>
          (case missing_column db updates of
             Some name \<Rightarrow> (Inl (no_such_column name), db')
           | None \<Rightarrow>
               (case rows db userId of
                  None \<Rightarrow> (Inr (), db')
                | Some r \<Rightarrow> (Inr (), db'\<lparr>rows := (rows db)(userId \<mapsto> foldl assign r updates)\<rparr>))))"

subsection \<open>The schema probes\<close>

text \<open>
  \<^verbatim>\<open>hasTagLayoutColumn\<close>, \<^verbatim>\<open>hasSortByColumn\<close>: \<open>Inr b\<close> is \<^verbatim>\<open>return b\<close>,
  \<open>Inl e\<close> is \<^verbatim>\<open>throw error\<close>.
\<close>

definition hasTagLayoutColumn :: "D1Database \<Rightarrow> (thrown + bool) \<times> D1Database" where
  "hasTagLayoutColumn db =
     (case select_tag_layout db of
        (Inr u, db') \<Rightarrow> (Inr True, db')
      | (Inl error, db') \<Rightarrow>
          (case error of
             Error message \<Rightarrow>
               if regex_test_i ''no such column: tag_layout'' message then (Inr False, db')
               else (Inl error, db')
           | NotAnError \<Rightarrow> (Inl error, db')))"

definition hasSortByColumn :: "D1Database \<Rightarrow> (thrown + bool) \<times> D1Database" where
  "hasSortByColumn db =
     (case select_sort_by db of
        (Inr u, db') \<Rightarrow> (Inr True, db')
      | (Inl error, db') \<Rightarrow>
          (case error of
             Error message \<Rightarrow>
               if regex_test_i ''no such column: sort_by'' message then (Inr False, db')
               else (Inl error, db')
           | NotAnError \<Rightarrow> (Inl error, db')))"

subsection \<open>The handlers\<close>

text \<open>
  The object literal all three success responses build:
  \<^verbatim>\<open>tag_layout: preferences.tag_layout ?? 'grid'\<close>,
  \<^verbatim>\<open>sort_by: preferences.sort_by ?? 'popular'\<close>, the other five fields copied.
\<close>

definition project :: "UserPreferences \<Rightarrow> PreferencesBody" where
  "project preferences =
     \<lparr>res_theme = theme preferences,
      res_page_size = page_size preferences,
      res_view_mode = view_mode preferences,
      res_density = density preferences,
      res_tag_layout = (case tag_layout preferences of None \<Rightarrow> ''grid'' | Some v \<Rightarrow> v),
      res_sort_by = (case sort_by preferences of None \<Rightarrow> ''popular'' | Some v \<Rightarrow> v),
      res_updated_at = updated_at preferences\<rparr>"

text \<open>
  \<^verbatim>\<open>onRequestGet\<close>. (\<^verbatim>\<open>console.error\<close> in the \<^verbatim>\<open>catch\<close> writes a log line and is
  left out.)
\<close>

definition onRequestGet :: "D1Database \<Rightarrow> string \<Rightarrow> response \<times> D1Database" where
  "onRequestGet db userId =
     (case select_by_user_id userId db of
        (Inl error, db') \<Rightarrow> (internalError ''Failed to get preferences'', db')
      | (Inr None, db') \<Rightarrow> (notFound ''Preferences not found'', db')
      | (Inr (Some preferences), db') \<Rightarrow> (success (project preferences), db'))"

text \<open>
  \<^verbatim>\<open>body.f && !allowed.includes(body.f)\<close> for a string field: an absent field and the
  empty string are falsy.
\<close>

definition invalid_enum :: "string option \<Rightarrow> string list \<Rightarrow> bool" where
  "invalid_enum v allowed =
     (case v of None \<Rightarrow> False | Some s \<Rightarrow> s \<noteq> [] \<and> s \<notin> set allowed)"

text \<open>
  \<^verbatim>\<open>body.page_size && (body.page_size < 10 || body.page_size > 100)\<close>: an absent field
  and 0 are falsy.
\<close>

definition invalid_page_size :: "int option \<Rightarrow> bool" where
  "invalid_page_size v =
     (case v of None \<Rightarrow> False | Some n \<Rightarrow> n \<noteq> 0 \<and> (n < 10 \<or> n > 100))"

text \<open>
  The six checks under \<^verbatim>\<open>// validate input\<close>, in the source's order; \<open>Some m\<close> is
  \<^verbatim>\<open>return badRequest(m)\<close>, \<open>None\<close> is falling through all six.
\<close>

definition validate :: "UpdatePreferencesRequest \<Rightarrow> string option" where
  "validate body =
     (if invalid_enum (req_theme body) [''light'', ''dark'']
        then Some ''Invalid theme value''
      else if invalid_page_size (req_page_size body)
        then Some ''Page size must be between 10 and 100''
      else if invalid_enum (req_view_mode body) [''list'', ''card'', ''minimal'', ''title'']
        then Some ''Invalid view mode''
      else if invalid_enum (req_density body) [''compact'', ''normal'', ''comfortable'']
        then Some ''Invalid density value''
      else if invalid_enum (req_tag_layout body) [''grid'', ''masonry'']
        then Some ''Invalid tag layout value''
      else if invalid_enum (req_sort_by body) [''created'', ''updated'', ''pinned'', ''popular'']
        then Some ''Invalid sort_by value''
      else None)"

text \<open>
  The six \<^verbatim>\<open>if (body.f !== undefined ...) { updates.push(...); values.push(...) }\<close>:
  the assignment list before \<^verbatim>\<open>updated_at\<close> is pushed.
\<close>

definition build_updates :: "UpdatePreferencesRequest \<Rightarrow> bool \<Rightarrow> bool \<Rightarrow> assignment list" where
  "build_updates body tagLayoutSupported sortBySupported =
     (case req_theme body of None \<Rightarrow> [] | Some v \<Rightarrow> [SetTheme v]) @
     (case req_page_size body of None \<Rightarrow> [] | Some n \<Rightarrow> [SetPageSize n]) @
     (case req_view_mode body of None \<Rightarrow> [] | Some v \<Rightarrow> [SetViewMode v]) @
     (case req_density body of None \<Rightarrow> [] | Some v \<Rightarrow> [SetDensity v]) @
     (case req_tag_layout body of None \<Rightarrow> []
      | Some v \<Rightarrow> if tagLayoutSupported then [SetTagLayout v] else []) @
     (case req_sort_by body of None \<Rightarrow> []
      | Some v \<Rightarrow> if sortBySupported then [SetSortBy v] else [])"

text \<open>
  The condition of the inner \<^verbatim>\<open>if\<close> under \<^verbatim>\<open>updates.length === 0\<close>: a supplied
  optional field whose column the probe found missing.
\<close>

definition masked_field :: "UpdatePreferencesRequest \<Rightarrow> bool \<Rightarrow> bool \<Rightarrow> bool" where
  "masked_field body tagLayoutSupported sortBySupported =
     ((req_tag_layout body \<noteq> None \<and> \<not> tagLayoutSupported) \<or>
      (req_sort_by body \<noteq> None \<and> \<not> sortBySupported))"

text \<open>
  \<^verbatim>\<open>onRequestPatch\<close>. \<open>json\<close> is the outcome of \<^verbatim>\<open>await context.request.json()\<close>,
  which throws on a body that is not JSON, before any statement is prepared. \<open>now\<close> is
  what \<^verbatim>\<open>new Date().toISOString()\<close> returns when the handler reaches it.
\<close>

definition onRequestPatch ::
  "D1Database \<Rightarrow> string \<Rightarrow> thrown + UpdatePreferencesRequest \<Rightarrow> string \<Rightarrow> response \<times> D1Database"
  where
  "onRequestPatch db userId json now =
     (case json of
        Inl error \<Rightarrow> (internalError ''Failed to update preferences'', db)
      | Inr body \<Rightarrow>
     (case hasTagLayoutColumn db of
        (Inl error, db1) \<Rightarrow> (internalError ''Failed to update preferences'', db1)
      | (Inr tagLayoutSupported, db1) \<Rightarrow>
     (case hasSortByColumn db1 of
        (Inl error, db2) \<Rightarrow> (internalError ''Failed to update preferences'', db2)
      | (Inr sortBySupported, db2) \<Rightarrow>
     (case validate body of
        Some m \<Rightarrow> (badRequest m, db2)
      | None \<Rightarrow>
          let updates = build_updates body tagLayoutSupported sortBySupported in
          if updates = [] then
            if masked_field body tagLayoutSupported sortBySupported then
              (case select_by_user_id userId db2 of
                 (Inl error, db3) \<Rightarrow> (internalError ''Failed to update preferences'', db3)
               | (Inr None, db3) \<Rightarrow> (internalError ''Failed to load preferences'', db3)
               | (Inr (Some preferences), db3) \<Rightarrow> (success (project preferences), db3))
            else (badRequest ''No valid fields to update'', db2)
          else
            (case update_by_user_id (updates @ [SetUpdatedAt now]) userId db2 of
               (Inl error, db3) \<Rightarrow> (internalError ''Failed to update preferences'', db3)
             | (Inr u, db3) \<Rightarrow>
                 (case select_by_user_id userId db3 of
                    (Inl error, db4) \<Rightarrow> (internalError ''Failed to update preferences'', db4)
                  | (Inr None, db4) \<Rightarrow>
                      (internalError ''Failed to load preferences after update'', db4)
                  | (Inr (Some preferences), db4) \<Rightarrow>
                      (success (project preferences), db4)))))))"

subsection \<open>A store that reports a missing column only when one is missing\<close>

text \<open>
  A failure of the store is spurious when its message reads as a missing
  \<^verbatim>\<open>tag_layout\<close> or \<^verbatim>\<open>sort_by\<close> column although it is not the schema's own
  report; a store is honest when none of its coming failures is.
\<close>

definition spurious :: "thrown option \<Rightarrow> bool" where
  "spurious f =
     (case f of
        Some (Error message) \<Rightarrow>
          regex_test_i ''no such column: tag_layout'' message \<or>
          regex_test_i ''no such column: sort_by'' message
      | _ \<Rightarrow> False)"

definition honest :: "D1Database \<Rightarrow> bool" where
  "honest db = (filter spurious (faults db) = [])"

subsection \<open>Example data\<close>

definition row1 :: UserPreferences where
  "row1 =
     \<lparr>user_id = ''u1'', theme = ''light'', page_size = 20, view_mode = ''list'',
      density = ''normal'', tag_layout = Some ''masonry'', sort_by = Some ''created'',
      updated_at = ''2025-01-01T00:00:00.000Z''\<rparr>"

text \<open>A migrated table holding the row of user \<open>u1\<close>, and a store that does not fail.\<close>

definition migrated :: D1Database where
  "migrated =
     \<lparr>rows = [''u1'' \<mapsto> row1], has_tag_layout = True, has_sort_by = True,
      faults = [], executed = []\<rparr>"

text \<open>The same table before the migration: neither optional column.\<close>

definition unmigrated :: D1Database where
  "unmigrated =
     \<lparr>rows = [''u1'' \<mapsto> row1\<lparr>tag_layout := None, sort_by := None\<rparr>],
      has_tag_layout = False, has_sort_by = False, faults = [], executed = []\<rparr>"

text \<open>The body \<^verbatim>\<open>{}\<close>.\<close>

definition no_fields :: UpdatePreferencesRequest where
  "no_fields =
     \<lparr>req_theme = None, req_page_size = None, req_view_mode = None, req_density = None,
      req_tag_layout = None, req_sort_by = None\<rparr>"

text \<open>Two readings of the clock, both after \<open>row1\<close> was last written.\<close>

definition noon :: string where
  "noon = ''2025-06-01T12:00:00.000Z''"

definition evening :: string where
  "evening = ''2025-06-01T18:00:00.000Z''"

section \<open>The case-insensitive test is a substring check\<close>

lemma of_char_canonicalize:
  "(of_char (canonicalize c) :: nat) = (if ascii_lower c then of_char c - 32 else of_char c)"
proof (cases "ascii_lower c")
  case True
  then show ?thesis
    by (auto simp add: ascii_lower_def canonicalize_def)
next
  case False
  then have "map_of (zip ''abcdefghijklmnopqrstuvwxyz'' ''ABCDEFGHIJKLMNOPQRSTUVWXYZ'') c = None"
    unfolding ascii_lower_def by (simp only: map_of_eq_None_iff) simp
  with False show ?thesis by (simp add: canonicalize_def)
qed

lemma ascii_lower_code: "ascii_lower c \<Longrightarrow> 97 \<le> (of_char c :: nat)"
  by (auto simp add: ascii_lower_def)

lemma fold_step:
  fixes nc nd :: nat
  assumes "A \<Longrightarrow> 97 \<le> nc" and "B \<Longrightarrow> 97 \<le> nd"
    and "A \<Longrightarrow> nc = nd + 32 \<Longrightarrow> \<not> B" and "B \<Longrightarrow> nd = nc + 32 \<Longrightarrow> \<not> A"
    and "nc = nd \<Longrightarrow> A = B"
  shows "((if A then nc - 32 else nc) = (if B then nd - 32 else nd)) =
         (nc = nd \<or> A \<and> nc = nd + 32 \<or> B \<and> nd = nc + 32)"
proof (cases A; cases B)
  assume "A" "B"
  with assms show ?thesis by auto
next
  assume "A" "\<not> B"
  with assms show ?thesis by auto
next
  assume "\<not> A" "B"
  with assms show ?thesis by auto
next
  assume "\<not> A" "\<not> B"
  with assms show ?thesis by auto
qed

lemma canonicalize_same_letter: "(canonicalize c = canonicalize d) = same_letter c d"
proof -
  have u: "\<not> ascii_lower x" if "ascii_lower y" and "(of_char y :: nat) = of_char x + 32"
    for x y
    using that by (auto simp add: ascii_lower_def)
  have "(canonicalize c = canonicalize d) =
        ((of_char (canonicalize c) :: nat) = of_char (canonicalize d))"
    by simp
  also have "\<dots> =
      ((if ascii_lower c then (of_char c :: nat) - 32 else of_char c) =
       (if ascii_lower d then (of_char d :: nat) - 32 else of_char d))"
    by (simp only: of_char_canonicalize)
  also have "\<dots> =
      ((of_char c :: nat) = of_char d \<or>
       ascii_lower c \<and> (of_char c :: nat) = of_char d + 32 \<or>
       ascii_lower d \<and> (of_char d :: nat) = of_char c + 32)"
  proof (rule fold_step)
    show "ascii_lower c \<Longrightarrow> 97 \<le> (of_char c :: nat)" by (rule ascii_lower_code)
    show "ascii_lower d \<Longrightarrow> 97 \<le> (of_char d :: nat)" by (rule ascii_lower_code)
    show "ascii_lower c \<Longrightarrow> (of_char c :: nat) = of_char d + 32 \<Longrightarrow> \<not> ascii_lower d"
      by (rule u)
    show "ascii_lower d \<Longrightarrow> (of_char d :: nat) = of_char c + 32 \<Longrightarrow> \<not> ascii_lower c"
      by (rule u)
    show "(of_char c :: nat) = of_char d \<Longrightarrow> ascii_lower c = ascii_lower d" by simp
  qed
  also have "\<dots> = same_letter c d"
    by (simp add: same_letter_def)
  finally show ?thesis .
qed

lemma match_here_prefix:
  "match_here pat cs = (\<exists>mid suf. cs = mid @ suf \<and> list_all2 same_letter pat mid)"
proof (induction pat cs rule: match_here.induct)
  case (1 cs)
  show ?case by simp
next
  case (2 p ps)
  show ?case by (simp add: list_all2_Cons1)
next
  case (3 p ps c cs)
  have "(\<exists>mid suf. c # cs = mid @ suf \<and> list_all2 same_letter (p # ps) mid) =
        (same_letter p c \<and> (\<exists>mid suf. cs = mid @ suf \<and> list_all2 same_letter ps mid))"
    by (auto simp add: list_all2_Cons1 Cons_eq_append_conv)
  then show ?case by (simp add: 3 canonicalize_same_letter)
qed

lemma regex_test_i_ci_substring: "regex_test_i pat msg = ci_substring pat msg"
proof (induction msg)
  case Nil
  show ?case by (simp add: match_here_prefix ci_substring_def)
next
  case (Cons c cs)
  have "ci_substring pat (c # cs) =
        ((\<exists>mid suf. c # cs = mid @ suf \<and> list_all2 same_letter pat mid) \<or>
         ci_substring pat cs)"
  proof
    assume "ci_substring pat (c # cs)"
    then obtain pre mid suf where
      e: "c # cs = pre @ mid @ suf" and l: "list_all2 same_letter pat mid"
      unfolding ci_substring_def by blast
    show "(\<exists>mid suf. c # cs = mid @ suf \<and> list_all2 same_letter pat mid) \<or>
         ci_substring pat cs"
    proof (cases pre)
      case Nil
      with e l show ?thesis by auto
    next
      case (Cons x pre')
      with e have "cs = pre' @ mid @ suf" by simp
      with l show ?thesis unfolding ci_substring_def by blast
    qed
  next
    assume "(\<exists>mid suf. c # cs = mid @ suf \<and> list_all2 same_letter pat mid) \<or>
         ci_substring pat cs"
    then show "ci_substring pat (c # cs)"
    proof
      assume "\<exists>mid suf. c # cs = mid @ suf \<and> list_all2 same_letter pat mid"
      then obtain mid suf where "c # cs = [] @ mid @ suf" "list_all2 same_letter pat mid"
        by auto
      then show ?thesis unfolding ci_substring_def by blast
    next
      assume "ci_substring pat cs"
      then obtain pre mid suf where "cs = pre @ mid @ suf" "list_all2 same_letter pat mid"
        unfolding ci_substring_def by blast
      then have "c # cs = (c # pre) @ mid @ suf" "list_all2 same_letter pat mid" by simp_all
      then show ?thesis unfolding ci_substring_def by blast
    qed
  qed
  then show ?case by (simp add: Cons match_here_prefix)
qed

lemma same_letter_refl [simp]: "same_letter c c"
  by (simp add: same_letter_def)

lemma ci_substring_part: "ci_substring pat (pre @ pat @ suf)"
proof -
  have "list_all2 same_letter pat pat" by (simp add: list_all2_refl)
  then show ?thesis unfolding ci_substring_def by blast
qed

lemma ci_substring_letters:
  assumes "ci_substring pat msg" and "p \<in> set pat"
  shows "\<exists>c \<in> set msg. same_letter p c"
proof -
  from assms(1) obtain pre mid suf where
    e: "msg = pre @ mid @ suf" and l: "list_all2 same_letter pat mid"
    unfolding ci_substring_def by blast
  from l assms(2) have "\<exists>c \<in> set mid. same_letter p c"
    by (induction rule: list_all2_induct) auto
  with e show ?thesis by auto
qed

lemma tag_layout_report_matches:
  "regex_test_i ''no such column: tag_layout''
     (''D1_ERROR: no such column: '' @ ''tag_layout'' @ '': SQLITE_ERROR'')"
proof -
  have "ci_substring ''no such column: tag_layout''
          (''D1_ERROR: '' @ ''no such column: tag_layout'' @ '': SQLITE_ERROR'')"
    by (rule ci_substring_part)
  then show ?thesis by (simp add: regex_test_i_ci_substring)
qed

lemma sort_by_report_matches:
  "regex_test_i ''no such column: sort_by''
     (''D1_ERROR: no such column: '' @ ''sort_by'' @ '': SQLITE_ERROR'')"
proof -
  have "ci_substring ''no such column: sort_by''
          (''D1_ERROR: '' @ ''no such column: sort_by'' @ '': SQLITE_ERROR'')"
    by (rule ci_substring_part)
  then show ?thesis by (simp add: regex_test_i_ci_substring)
qed

section \<open>The store's statements\<close>

lemma advance_fields [simp]:
  "rows (advance s db) = rows db"
  "has_tag_layout (advance s db) = has_tag_layout db"
  "has_sort_by (advance s db) = has_sort_by db"
  "faults (advance s db) = drop 1 (faults db)"
  "executed (advance s db) = executed db @ [s]"
  by (simp_all add: advance_def)

lemma pending_Nil [simp]: "faults db = [] \<Longrightarrow> pending db = None"
  by (simp add: pending_def)

lemma hasTagLayoutColumn_state [simp]:
  "snd (hasTagLayoutColumn db) = advance SelectTagLayout db"
  by (simp add: hasTagLayoutColumn_def select_tag_layout_def issue_def
      split: option.splits thrown.splits)

lemma hasSortByColumn_state [simp]:
  "snd (hasSortByColumn db) = advance SelectSortBy db"
  by (simp add: hasSortByColumn_def select_sort_by_def issue_def
      split: option.splits thrown.splits)

lemma select_by_user_id_state [simp]:
  "snd (select_by_user_id userId db) = advance (SelectByUserId userId) db"
  by (simp add: select_by_user_id_def issue_def split: option.splits)

lemma select_by_user_id_result:
  "fst (select_by_user_id userId db) =
     (case pending db of Some e \<Rightarrow> Inl e | None \<Rightarrow> Inr (map_option (fetched db) (rows db userId)))"
  by (simp add: select_by_user_id_def issue_def split: option.splits)

lemma hasTagLayoutColumn_running:
  "pending db = None \<Longrightarrow> fst (hasTagLayoutColumn db) = Inr (has_tag_layout db)"
  using tag_layout_report_matches
  by (simp add: hasTagLayoutColumn_def select_tag_layout_def issue_def no_such_column_def)

lemma hasSortByColumn_running:
  "pending db = None \<Longrightarrow> fst (hasSortByColumn db) = Inr (has_sort_by db)"
  using sort_by_report_matches
  by (simp add: hasSortByColumn_def select_sort_by_def issue_def no_such_column_def)


lemma update_by_user_id_result:
  "fst (update_by_user_id us userId db) =
     (case pending db of
        Some e \<Rightarrow> Inl e
      | None \<Rightarrow> (case missing_column db us of Some n \<Rightarrow> Inl (no_such_column n) | None \<Rightarrow> Inr ()))"
  by (simp add: update_by_user_id_def issue_def split: option.splits)

lemma update_by_user_id_state:
  "snd (update_by_user_id us userId db) =
     (case fst (update_by_user_id us userId db) of
        Inl e \<Rightarrow> advance (UpdateByUserId us userId) db
      | Inr u \<Rightarrow>
          (case rows db userId of
             None \<Rightarrow> advance (UpdateByUserId us userId) db
           | Some r \<Rightarrow>
               (advance (UpdateByUserId us userId) db)
                 \<lparr>rows := (rows db)(userId \<mapsto> foldl assign r us)\<rparr>))"
  by (simp add: update_by_user_id_def issue_def split: option.splits)

lemma update_by_user_id_rows:
  "rows (snd (update_by_user_id us userId db)) =
     (case (fst (update_by_user_id us userId db), rows db userId) of
        (Inr u, Some r) \<Rightarrow> (rows db)(userId \<mapsto> foldl assign r us)
      | _ \<Rightarrow> rows db)"
  by (simp add: update_by_user_id_state split: sum.splits option.splits)

lemma update_by_user_id_other [simp]:
  "has_tag_layout (snd (update_by_user_id us userId db)) = has_tag_layout db"
  "has_sort_by (snd (update_by_user_id us userId db)) = has_sort_by db"
  "faults (snd (update_by_user_id us userId db)) = drop 1 (faults db)"
  "executed (snd (update_by_user_id us userId db)) = executed db @ [UpdateByUserId us userId]"
  by (simp_all add: update_by_user_id_state split: sum.splits option.splits)

text \<open>The handler with each statement's outcome and state named apart.\<close>

lemma onRequestPatch_unfold:
  "onRequestPatch db userId (Inr body) now =
     (let db1 = advance SelectTagLayout db; db2 = advance SelectSortBy db1 in
      case fst (hasTagLayoutColumn db) of
        Inl e \<Rightarrow> (internalError ''Failed to update preferences'', db1)
      | Inr tagLayoutSupported \<Rightarrow>
      (case fst (hasSortByColumn db1) of
        Inl e \<Rightarrow> (internalError ''Failed to update preferences'', db2)
      | Inr sortBySupported \<Rightarrow>
      (case validate body of
        Some m \<Rightarrow> (badRequest m, db2)
      | None \<Rightarrow>
         if build_updates body tagLayoutSupported sortBySupported = [] then
           if masked_field body tagLayoutSupported sortBySupported then
             (case fst (select_by_user_id userId db2) of
                Inl e \<Rightarrow> internalError ''Failed to update preferences''
              | Inr None \<Rightarrow> internalError ''Failed to load preferences''
              | Inr (Some r) \<Rightarrow> success (project r),
              advance (SelectByUserId userId) db2)
           else (badRequest ''No valid fields to update'', db2)
         else
           (let us = build_updates body tagLayoutSupported sortBySupported @ [SetUpdatedAt now];
                db3 = snd (update_by_user_id us userId db2) in
            case fst (update_by_user_id us userId db2) of
              Inl e \<Rightarrow> (internalError ''Failed to update preferences'', db3)
            | Inr u \<Rightarrow>
                (case fst (select_by_user_id userId db3) of
                   Inl e \<Rightarrow> internalError ''Failed to update preferences''
                 | Inr None \<Rightarrow> internalError ''Failed to load preferences after update''
                 | Inr (Some r) \<Rightarrow> success (project r),
                 advance (SelectByUserId userId) db3)))))"
  by (simp add: onRequestPatch_def Let_def split_beta
      split: sum.splits option.splits prod.splits)


lemma onRequestGet_unfold:
  "onRequestGet db userId =
     (case fst (select_by_user_id userId db) of
        Inl e \<Rightarrow> internalError ''Failed to get preferences''
      | Inr None \<Rightarrow> notFound ''Preferences not found''
      | Inr (Some r) \<Rightarrow> success (project r),
      advance (SelectByUserId userId) db)"
  by (simp add: onRequestGet_def split_beta split: sum.splits option.splits prod.splits)

section \<open>The assignments of an update\<close>

lemma fields_after_updates:
  "user_id (foldl assign r (build_updates body a b @ [SetUpdatedAt now])) = user_id r \<and>
   theme (foldl assign r (build_updates body a b @ [SetUpdatedAt now])) =
     (case req_theme body of None \<Rightarrow> theme r | Some v \<Rightarrow> v) \<and>
   page_size (foldl assign r (build_updates body a b @ [SetUpdatedAt now])) =
     (case req_page_size body of None \<Rightarrow> page_size r | Some n \<Rightarrow> n) \<and>
   view_mode (foldl assign r (build_updates body a b @ [SetUpdatedAt now])) =
     (case req_view_mode body of None \<Rightarrow> view_mode r | Some v \<Rightarrow> v) \<and>
   density (foldl assign r (build_updates body a b @ [SetUpdatedAt now])) =
     (case req_density body of None \<Rightarrow> density r | Some v \<Rightarrow> v) \<and>
   tag_layout (foldl assign r (build_updates body a b @ [SetUpdatedAt now])) =
     (case req_tag_layout body of None \<Rightarrow> tag_layout r
      | Some v \<Rightarrow> if a then Some v else tag_layout r) \<and>
   sort_by (foldl assign r (build_updates body a b @ [SetUpdatedAt now])) =
     (case req_sort_by body of None \<Rightarrow> sort_by r
      | Some v \<Rightarrow> if b then Some v else sort_by r) \<and>
   updated_at (foldl assign r (build_updates body a b @ [SetUpdatedAt now])) = now"
  by (cases "req_theme body"; cases "req_page_size body"; cases "req_view_mode body";
      cases "req_density body"; cases "req_tag_layout body"; cases "req_sort_by body";
      simp add: build_updates_def)

lemma patch_rows:
  "rows (snd (onRequestPatch db userId (Inr body) now)) = rows db \<or>
   (\<exists>a b r. rows db userId = Some r \<and>
      rows (snd (onRequestPatch db userId (Inr body) now)) =
        (rows db)(userId \<mapsto> foldl assign r (build_updates body a b @ [SetUpdatedAt now])))"
  by (auto simp add: onRequestPatch_unfold Let_def update_by_user_id_rows
      split: sum.splits option.splits)

section \<open>A store that does not fail\<close>

lemma probe_tag_layout_sound:
  "fst (hasTagLayoutColumn db) = Inr True \<Longrightarrow> has_tag_layout db"
  by (simp add: hasTagLayoutColumn_def select_tag_layout_def issue_def no_such_column_def
      split: option.splits thrown.splits if_splits)

lemma probe_sort_by_sound:
  "fst (hasSortByColumn db) = Inr True \<Longrightarrow> has_sort_by db"
  by (simp add: hasSortByColumn_def select_sort_by_def issue_def no_such_column_def
      split: option.splits thrown.splits if_splits)

lemma build_updates_columns:
  "(a \<Longrightarrow> has_tag_layout db) \<Longrightarrow> (b \<Longrightarrow> has_sort_by db) \<Longrightarrow>
   missing_column db (build_updates body a b @ [SetUpdatedAt now]) = None"
  by (cases "req_theme body"; cases "req_page_size body"; cases "req_view_mode body";
      cases "req_density body"; cases "req_tag_layout body"; cases "req_sort_by body";
      cases a; cases b; simp add: build_updates_def)

lemma advance_faults_Nil [simp]: "faults db = [] \<Longrightarrow> pending (advance s db) = None"
  by (simp add: pending_def)

lemma patch_running_response:
  assumes "faults db = []"
  shows "fst (onRequestPatch db userId (Inr body) now) =
     (case validate body of
        Some m \<Rightarrow> badRequest m
      | None \<Rightarrow>
          if build_updates body (has_tag_layout db) (has_sort_by db) = [] then
            if masked_field body (has_tag_layout db) (has_sort_by db) then
              (case rows db userId of
                 None \<Rightarrow> internalError ''Failed to load preferences''
               | Some r \<Rightarrow> success (project (fetched db r)))
            else badRequest ''No valid fields to update''
          else
            (case rows db userId of
               None \<Rightarrow> internalError ''Failed to load preferences after update''
             | Some r \<Rightarrow>
                 success (project (fetched db (foldl assign r
                   (build_updates body (has_tag_layout db) (has_sort_by db) @
                    [SetUpdatedAt now]))))))"
  using assms
  by (simp add: onRequestPatch_unfold Let_def hasTagLayoutColumn_running
      hasSortByColumn_running select_by_user_id_result update_by_user_id_result
      update_by_user_id_state build_updates_columns fetched_def pending_def
      split: option.splits)

lemma patch_running_rows:
  assumes "faults db = []"
  shows "rows (snd (onRequestPatch db userId (Inr body) now)) =
     (case (validate body, rows db userId) of
        (None, Some r) \<Rightarrow>
          if build_updates body (has_tag_layout db) (has_sort_by db) = [] then rows db
          else (rows db)(userId \<mapsto> foldl assign r
                  (build_updates body (has_tag_layout db) (has_sort_by db) @
                   [SetUpdatedAt now]))
      | _ \<Rightarrow> rows db)"
  using assms
  by (simp add: onRequestPatch_unfold Let_def hasTagLayoutColumn_running
      hasSortByColumn_running select_by_user_id_result update_by_user_id_result
      update_by_user_id_state build_updates_columns pending_def
      split: option.splits)

lemma patch_running_executed:
  assumes "faults db = []"
  shows "executed (snd (onRequestPatch db userId (Inr body) now)) =
     executed db @ [SelectTagLayout, SelectSortBy] @
     (case validate body of
        Some m \<Rightarrow> []
      | None \<Rightarrow>
          if build_updates body (has_tag_layout db) (has_sort_by db) = [] then
            if masked_field body (has_tag_layout db) (has_sort_by db)
            then [SelectByUserId userId] else []
          else [UpdateByUserId (build_updates body (has_tag_layout db) (has_sort_by db) @
                  [SetUpdatedAt now]) userId, SelectByUserId userId])"
  using assms
  by (simp add: onRequestPatch_unfold Let_def hasTagLayoutColumn_running
      hasSortByColumn_running select_by_user_id_result update_by_user_id_result
      update_by_user_id_state build_updates_columns pending_def
      split: option.splits)

section \<open>What a request leaves behind\<close>

lemma fetched_fields [simp]:
  "user_id (fetched db r) = user_id r"
  "theme (fetched db r) = theme r"
  "page_size (fetched db r) = page_size r"
  "view_mode (fetched db r) = view_mode r"
  "density (fetched db r) = density r"
  "updated_at (fetched db r) = updated_at r"
  "tag_layout (fetched db r) = (if has_tag_layout db then tag_layout r else None)"
  "sort_by (fetched db r) = (if has_sort_by db then sort_by r else None)"
  by (simp_all add: fetched_def)

lemma fetched_schema:
  "has_tag_layout db' = has_tag_layout db \<Longrightarrow> has_sort_by db' = has_sort_by db \<Longrightarrow>
   fetched db' = fetched db"
  by (simp add: fetched_def fun_eq_iff)

lemma onRequestPatch_Inl [simp]:
  "onRequestPatch db userId (Inl e) now = (internalError ''Failed to update preferences'', db)"
  by (simp add: onRequestPatch_def)

lemma patch_schema [simp]:
  "has_tag_layout (snd (onRequestPatch db userId json now)) = has_tag_layout db"
  "has_sort_by (snd (onRequestPatch db userId json now)) = has_sort_by db"
  by (cases json; simp add: onRequestPatch_unfold Let_def split: sum.splits option.splits)+

lemma patch_success:
  assumes "onRequestPatch db userId (Inr body) now = (success p, db')"
  shows "\<exists>a b r. fst (hasTagLayoutColumn db) = Inr a \<and>
           fst (hasSortByColumn (advance SelectTagLayout db)) = Inr b \<and>
           validate body = None \<and> rows db userId = Some r \<and>
           (if build_updates body a b = [] then
              masked_field body a b \<and> rows db' = rows db \<and> p = project (fetched db r) \<and>
              executed db' =
                executed db @ [SelectTagLayout, SelectSortBy, SelectByUserId userId]
            else
              rows db' =
                (rows db)(userId \<mapsto> foldl assign r (build_updates body a b @ [SetUpdatedAt now])) \<and>
              p = project (fetched db
                    (foldl assign r (build_updates body a b @ [SetUpdatedAt now]))) \<and>
              executed db' =
                executed db @
                [SelectTagLayout, SelectSortBy,
                 UpdateByUserId (build_updates body a b @ [SetUpdatedAt now]) userId,
                 SelectByUserId userId])"
  using assms
  by (auto simp add: onRequestPatch_unfold Let_def select_by_user_id_result
      update_by_user_id_state fetched_def
      split: sum.splits option.splits if_splits)

lemma patch_rows_probes:
  "rows (snd (onRequestPatch db userId (Inr body) now)) = rows db \<or>
   (\<exists>a b r. fst (hasTagLayoutColumn db) = Inr a \<and>
      fst (hasSortByColumn (advance SelectTagLayout db)) = Inr b \<and>
      build_updates body a b \<noteq> [] \<and>
      rows db userId = Some r \<and>
      rows (snd (onRequestPatch db userId (Inr body) now)) =
        (rows db)(userId \<mapsto> foldl assign r (build_updates body a b @ [SetUpdatedAt now])))"
  by (auto simp add: onRequestPatch_unfold Let_def update_by_user_id_rows
      split: sum.splits option.splits)

lemma patch_faults:
  "set (faults (snd (onRequestPatch db userId json now))) \<subseteq> set (faults db)"
proof (cases json)
  case (Inl e)
  then show ?thesis by simp
next
  case (Inr body)
  then show ?thesis
    by (auto simp add: onRequestPatch_unfold Let_def
        split: sum.splits option.splits dest!: in_set_dropD)
qed

lemma honest_set: "honest db = (\<forall>f \<in> set (faults db). \<not> spurious f)"
  by (simp add: honest_def filter_empty_conv)

lemma honest_advance [simp]: "honest db \<Longrightarrow> honest (advance s db)"
  by (auto simp add: honest_set dest: in_set_dropD)

lemma honest_patch: "honest db \<Longrightarrow> honest (snd (onRequestPatch db userId json now))"
  using patch_faults [of db userId json now] by (auto simp add: honest_set)

lemma honest_pending: "honest db \<Longrightarrow> \<not> spurious (pending db)"
  by (cases "faults db") (auto simp add: honest_set pending_def spurious_def)

lemma honest_tag_layout:
  assumes "honest db" and "fst (hasTagLayoutColumn db) = Inr a"
  shows "a = has_tag_layout db"
proof (cases "pending db")
  case None
  with assms(2) show ?thesis by (simp add: hasTagLayoutColumn_running)
next
  case (Some e)
  with honest_pending [OF assms(1)] assms(2) show ?thesis
    by (auto simp add: hasTagLayoutColumn_def select_tag_layout_def issue_def spurious_def
        split: thrown.splits if_splits)
qed

lemma honest_sort_by:
  assumes "honest db" and "fst (hasSortByColumn db) = Inr b"
  shows "b = has_sort_by db"
proof (cases "pending db")
  case None
  with assms(2) show ?thesis by (simp add: hasSortByColumn_running)
next
  case (Some e)
  with honest_pending [OF assms(1)] assms(2) show ?thesis
    by (auto simp add: hasSortByColumn_def select_sort_by_def issue_def spurious_def
        split: thrown.splits if_splits)
qed

lemma patch_keeps_running:
  "faults db = [] \<Longrightarrow> faults (snd (onRequestPatch db userId json now)) = []"
  using patch_faults [of db userId json now] by simp

lemma fields_after_updates_twice:
  fixes r body a b now1 now2
  defines "r1 \<equiv> foldl assign r (build_updates body a b @ [SetUpdatedAt now1])"
  defines "r2 \<equiv> foldl assign r1 (build_updates body a b @ [SetUpdatedAt now2])"
  shows "theme r2 = theme r1 \<and> page_size r2 = page_size r1 \<and> view_mode r2 = view_mode r1 \<and>
         density r2 = density r1 \<and> tag_layout r2 = tag_layout r1 \<and> sort_by r2 = sort_by r1 \<and>
         updated_at r1 = now1 \<and> updated_at r2 = now2"
  unfolding r1_def r2_def
  by (cases "req_theme body"; cases "req_page_size body"; cases "req_view_mode body";
      cases "req_density body"; cases "req_tag_layout body"; cases "req_sort_by body";
      simp add: build_updates_def)

section \<open>The example data\<close>

lemma migrated_fields [simp]:
  "rows migrated = [''u1'' \<mapsto> row1]"
  "has_tag_layout migrated"
  "has_sort_by migrated"
  "faults migrated = []"
  "executed migrated = []"
  by (simp_all add: migrated_def)

lemma unmigrated_fields [simp]:
  "rows unmigrated = [''u1'' \<mapsto> row1\<lparr>tag_layout := None, sort_by := None\<rparr>]"
  "\<not> has_tag_layout unmigrated"
  "\<not> has_sort_by unmigrated"
  "faults unmigrated = []"
  "executed unmigrated = []"
  by (simp_all add: unmigrated_def)

lemma patch_invalid:
  assumes "validate body = Some m"
  shows "onRequestPatch db userId (Inr body) now =
     (case fst (hasTagLayoutColumn db) of
        Inl e \<Rightarrow> (internalError ''Failed to update preferences'', advance SelectTagLayout db)
      | Inr a \<Rightarrow>
          (case fst (hasSortByColumn (advance SelectTagLayout db)) of
             Inl e \<Rightarrow> internalError ''Failed to update preferences''
           | Inr b \<Rightarrow> badRequest m,
           advance SelectSortBy (advance SelectTagLayout db)))"
  using assms by (simp add: onRequestPatch_unfold Let_def split: sum.splits)

lemma validate_examples [simp]:
  "validate no_fields = None"
  "validate (no_fields\<lparr>req_theme := Some ''dark''\<rparr>) = None"
  "validate (no_fields\<lparr>req_page_size := Some 0\<rparr>) = None"
  "validate (no_fields\<lparr>req_density := Some ''compact''\<rparr>) = None"
  "validate (no_fields\<lparr>req_tag_layout := Some ''masonry''\<rparr>) = None"
  "validate (no_fields\<lparr>req_sort_by := Some ''created''\<rparr>) = None"
  "validate (no_fields\<lparr>req_tag_layout := Some ''''\<rparr>) = None"
  "validate (no_fields\<lparr>req_theme := Some ''''\<rparr>) = None"
  by (simp_all add: validate_def invalid_enum_def invalid_page_size_def no_fields_def)

lemma build_updates_examples [simp]:
  "build_updates no_fields a b = []"
  "build_updates (no_fields\<lparr>req_theme := Some v\<rparr>) a b = [SetTheme v]"
  "build_updates (no_fields\<lparr>req_page_size := Some n\<rparr>) a b = [SetPageSize n]"
  "build_updates (no_fields\<lparr>req_density := Some v\<rparr>) a b = [SetDensity v]"
  "build_updates (no_fields\<lparr>req_tag_layout := Some v\<rparr>) a b = (if a then [SetTagLayout v] else [])"
  "build_updates (no_fields\<lparr>req_sort_by := Some v\<rparr>) a b = (if b then [SetSortBy v] else [])"
  by (simp_all add: build_updates_def no_fields_def)

lemma masked_field_examples [simp]:
  "\<not> masked_field no_fields a b"
  "masked_field (no_fields\<lparr>req_tag_layout := Some v\<rparr>) a b = (\<not> a)"
  "masked_field (no_fields\<lparr>req_sort_by := Some v\<rparr>) a b = (\<not> b)"
  by (simp_all add: masked_field_def no_fields_def)

lemma fault_tag_layout:
  "fst (select_tag_layout (migrated\<lparr>faults := [Some e]\<rparr>)) = Inl e"
  by (simp add: select_tag_layout_def issue_def pending_def)

lemma fault_sort_by:
  "fst (select_sort_by (migrated\<lparr>faults := [Some e]\<rparr>)) = Inl e"
  by (simp add: select_sort_by_def issue_def pending_def)

lemma patch_badRequest:
  assumes "fst (onRequestPatch db userId (Inr body) now) = badRequest m"
  shows "validate body = Some m \<or> m = ''No valid fields to update''"
  using assms
  by (auto simp add: onRequestPatch_unfold Let_def split: sum.splits option.splits if_splits)

lemma single_field_examples:
  "validate (no_fields\<lparr>req_theme := Some ''''\<rparr>) = None"
  "validate (no_fields\<lparr>req_view_mode := Some ''''\<rparr>) = None"
  "validate (no_fields\<lparr>req_density := Some ''''\<rparr>) = None"
  "validate (no_fields\<lparr>req_tag_layout := Some ''''\<rparr>) = None"
  "validate (no_fields\<lparr>req_sort_by := Some ''''\<rparr>) = None"
  "build_updates (no_fields\<lparr>req_view_mode := Some v\<rparr>) a b = [SetViewMode v]"
  by (simp_all add: validate_def invalid_enum_def invalid_page_size_def build_updates_def
      no_fields_def)

section \<open>The claims of the specification\<close>

text \<open>
  C5. Each probe returns \<open>True\<close> exactly when its read of the column returns, \<open>False\<close>
  exactly when the read throws an \<^verbatim>\<open>Error\<close> whose message has
  \<^verbatim>\<open>no such column: \<close> followed by the column's name as a substring, letter case
  put aside, and throws the store's own value again in every other case. The substring
  check is the specification's (\<open>ci_substring\<close>), not the code's matcher.
\<close>

theorem probes_classify_the_store_outcome:
  "(fst (hasTagLayoutColumn db) = Inr True) = (fst (select_tag_layout db) = Inr ()) \<and>
   (fst (hasTagLayoutColumn db) = Inr False) =
     (\<exists>m. fst (select_tag_layout db) = Inl (Error m) \<and>
          ci_substring ''no such column: tag_layout'' m) \<and>
   (fst (hasTagLayoutColumn db) = Inl e) =
     (fst (select_tag_layout db) = Inl e \<and>
      \<not> (\<exists>m. e = Error m \<and> ci_substring ''no such column: tag_layout'' m)) \<and>
   (fst (hasSortByColumn db) = Inr True) = (fst (select_sort_by db) = Inr ()) \<and>
   (fst (hasSortByColumn db) = Inr False) =
     (\<exists>m. fst (select_sort_by db) = Inl (Error m) \<and>
          ci_substring ''no such column: sort_by'' m) \<and>
   (fst (hasSortByColumn db) = Inl e) =
     (fst (select_sort_by db) = Inl e \<and>
      \<not> (\<exists>m. e = Error m \<and> ci_substring ''no such column: sort_by'' m))"
proof -
  have t: "fst (hasTagLayoutColumn db) =
      (case fst (select_tag_layout db) of
         Inr u \<Rightarrow> Inr True
       | Inl x \<Rightarrow>
           (case x of
              Error m \<Rightarrow> if ci_substring ''no such column: tag_layout'' m then Inr False else Inl x
            | NotAnError \<Rightarrow> Inl x))"
    by (simp add: hasTagLayoutColumn_def regex_test_i_ci_substring split_beta
        split: sum.splits thrown.splits prod.splits)
  have s: "fst (hasSortByColumn db) =
      (case fst (select_sort_by db) of
         Inr u \<Rightarrow> Inr True
       | Inl x \<Rightarrow>
           (case x of
              Error m \<Rightarrow> if ci_substring ''no such column: sort_by'' m then Inr False else Inl x
            | NotAnError \<Rightarrow> Inl x))"
    by (simp add: hasSortByColumn_def regex_test_i_ci_substring split_beta
        split: sum.splits thrown.splits prod.splits)
  show ?thesis
    unfolding t s by (auto split: sum.splits thrown.splits)
qed

theorem probes_classify_the_store_outcome_witness:
  "fst (hasTagLayoutColumn migrated) = Inr True \<and>
   fst (hasTagLayoutColumn unmigrated) = Inr False \<and>
   fst (hasTagLayoutColumn (migrated\<lparr>faults :=
     [Some (Error ''D1_ERROR: NO SUCH COLUMN: TAG_LAYOUT: SQLITE_ERROR'')]\<rparr>)) = Inr False \<and>
   fst (hasTagLayoutColumn (migrated\<lparr>faults :=
     [Some (Error ''D1_ERROR: no such column: sort_by: SQLITE_ERROR'')]\<rparr>)) =
     Inl (Error ''D1_ERROR: no such column: sort_by: SQLITE_ERROR'') \<and>
   fst (hasTagLayoutColumn (migrated\<lparr>faults :=
     [Some (Error ''D1_ERROR: no such table: user_preferences: SQLITE_ERROR'')]\<rparr>)) =
     Inl (Error ''D1_ERROR: no such table: user_preferences: SQLITE_ERROR'') \<and>
   fst (hasTagLayoutColumn (migrated\<lparr>faults := [Some NotAnError]\<rparr>)) = Inl NotAnError \<and>
   fst (hasSortByColumn migrated) = Inr True \<and>
   fst (hasSortByColumn unmigrated) = Inr False \<and>
   fst (hasSortByColumn (migrated\<lparr>faults :=
     [Some (Error ''SQLITE_ERROR: No Such Column: Sort_By'')]\<rparr>)) = Inr False \<and>
   fst (hasSortByColumn (migrated\<lparr>faults :=
     [Some (Error ''D1_ERROR: no such column: tag_layout: SQLITE_ERROR'')]\<rparr>)) =
     Inl (Error ''D1_ERROR: no such column: tag_layout: SQLITE_ERROR'')"
proof -
  let ?T = "''no such column: tag_layout''" and ?S = "''no such column: sort_by''"
  have t0: "ci_substring ?T ''D1_ERROR: no such column: tag_layout: SQLITE_ERROR''"
    using ci_substring_part [of ?T "''D1_ERROR: ''" "'': SQLITE_ERROR''"] by simp
  have s0: "ci_substring ?S ''D1_ERROR: no such column: sort_by: SQLITE_ERROR''"
    using ci_substring_part [of ?S "''D1_ERROR: ''" "'': SQLITE_ERROR''"] by simp
  have t1: "ci_substring ?T ''D1_ERROR: NO SUCH COLUMN: TAG_LAYOUT: SQLITE_ERROR''"
  proof -
    have "list_all2 same_letter ?T ''NO SUCH COLUMN: TAG_LAYOUT''"
      by (simp add: same_letter_def ascii_lower_def)
    then have "ci_substring ?T
        (''D1_ERROR: '' @ ''NO SUCH COLUMN: TAG_LAYOUT'' @ '': SQLITE_ERROR'')"
      unfolding ci_substring_def by blast
    then show ?thesis by simp
  qed
  have s1: "ci_substring ?S ''SQLITE_ERROR: No Such Column: Sort_By''"
  proof -
    have "list_all2 same_letter ?S ''No Such Column: Sort_By''"
      by (simp add: same_letter_def ascii_lower_def)
    then have "ci_substring ?S (''SQLITE_ERROR: '' @ ''No Such Column: Sort_By'' @ [])"
      unfolding ci_substring_def by blast
    then show ?thesis by simp
  qed
  have t2: "\<not> ci_substring ?T ''D1_ERROR: no such column: sort_by: SQLITE_ERROR''"
    using ci_substring_letters [of ?T "''D1_ERROR: no such column: sort_by: SQLITE_ERROR''"
        "CHR ''g''"]
    by (auto simp add: same_letter_def ascii_lower_def)
  have t3: "\<not> ci_substring ?T ''D1_ERROR: no such table: user_preferences: SQLITE_ERROR''"
    using ci_substring_letters [of ?T
        "''D1_ERROR: no such table: user_preferences: SQLITE_ERROR''" "CHR ''g''"]
    by (auto simp add: same_letter_def ascii_lower_def)
  have s2: "\<not> ci_substring ?S ''D1_ERROR: no such column: tag_layout: SQLITE_ERROR''"
    using ci_substring_letters [of ?S "''D1_ERROR: no such column: tag_layout: SQLITE_ERROR''"
        "CHR ''b''"]
    by (auto simp add: same_letter_def ascii_lower_def)
  have u: "fst (select_tag_layout migrated) = Inr ()"
      "fst (select_sort_by migrated) = Inr ()"
      "fst (select_tag_layout unmigrated) =
         Inl (Error ''D1_ERROR: no such column: tag_layout: SQLITE_ERROR'')"
      "fst (select_sort_by unmigrated) =
         Inl (Error ''D1_ERROR: no such column: sort_by: SQLITE_ERROR'')"
    by (simp_all add: select_tag_layout_def select_sort_by_def issue_def no_such_column_def)
  note p = probes_classify_the_store_outcome
  show ?thesis
    using t0 s0 t1 s1 t2 t3 s2
      p [of migrated NotAnError] p [of unmigrated NotAnError]
      p [of "migrated\<lparr>faults :=
          [Some (Error ''D1_ERROR: NO SUCH COLUMN: TAG_LAYOUT: SQLITE_ERROR'')]\<rparr>" NotAnError]
      p [of "migrated\<lparr>faults :=
          [Some (Error ''D1_ERROR: no such column: sort_by: SQLITE_ERROR'')]\<rparr>"
          "Error ''D1_ERROR: no such column: sort_by: SQLITE_ERROR''"]
      p [of "migrated\<lparr>faults :=
          [Some (Error ''D1_ERROR: no such table: user_preferences: SQLITE_ERROR'')]\<rparr>"
          "Error ''D1_ERROR: no such table: user_preferences: SQLITE_ERROR''"]
      p [of "migrated\<lparr>faults := [Some NotAnError]\<rparr>" NotAnError]
      p [of "migrated\<lparr>faults := [Some (Error ''SQLITE_ERROR: No Such Column: Sort_By'')]\<rparr>"
          NotAnError]
      p [of "migrated\<lparr>faults :=
          [Some (Error ''D1_ERROR: no such column: tag_layout: SQLITE_ERROR'')]\<rparr>"
          "Error ''D1_ERROR: no such column: tag_layout: SQLITE_ERROR''"]
    by (simp add: u fault_tag_layout fault_sort_by)
qed

text \<open>
  C6. When the store's read returns a row for the user, GetPreferences answers with that
  row's seven fields, \<^verbatim>\<open>grid\<close> standing for a missing \<^verbatim>\<open>tag_layout\<close> and
  \<^verbatim>\<open>popular\<close> for a missing \<^verbatim>\<open>sort_by\<close>; the table and the schema are as before,
  and the read is the only statement executed.
\<close>

theorem get_projects_the_row:
  assumes "select_by_user_id userId db = (Inr (Some preferences), db')"
  shows "onRequestGet db userId =
           (success
              \<lparr>res_theme = theme preferences,
               res_page_size = page_size preferences,
               res_view_mode = view_mode preferences,
               res_density = density preferences,
               res_tag_layout =
                 (case tag_layout preferences of None \<Rightarrow> ''grid'' | Some v \<Rightarrow> v),
               res_sort_by =
                 (case sort_by preferences of None \<Rightarrow> ''popular'' | Some v \<Rightarrow> v),
               res_updated_at = updated_at preferences\<rparr>, db') \<and>
         rows db' = rows db \<and>
         has_tag_layout db' = has_tag_layout db \<and>
         has_sort_by db' = has_sort_by db \<and>
         executed db' = executed db @ [SelectByUserId userId]"
proof -
  from assms have f: "fst (select_by_user_id userId db) = Inr (Some preferences)" by simp
  from assms have "snd (select_by_user_id userId db) = db'" by simp
  then have d: "db' = advance (SelectByUserId userId) db" by simp
  show ?thesis by (simp add: onRequestGet_unfold f d project_def)
qed

theorem get_projects_the_row_witness:
  "fst (onRequestGet unmigrated ''u1'') =
     success
       \<lparr>res_theme = ''light'', res_page_size = 20, res_view_mode = ''list'',
        res_density = ''normal'', res_tag_layout = ''grid'', res_sort_by = ''popular'',
        res_updated_at = ''2025-01-01T00:00:00.000Z''\<rparr> \<and>
   rows (snd (onRequestGet unmigrated ''u1'')) = rows unmigrated \<and>
   executed (snd (onRequestGet unmigrated ''u1'')) = [SelectByUserId ''u1'']"
proof -
  have h: "select_by_user_id ''u1'' unmigrated =
      (Inr (Some (row1\<lparr>tag_layout := None, sort_by := None\<rparr>)),
       advance (SelectByUserId ''u1'') unmigrated)"
    by (simp add: select_by_user_id_def issue_def pending_def fetched_def unmigrated_def)
  show ?thesis
    using get_projects_the_row [OF h]
    by (simp add: row1_def unmigrated_def)
qed

text \<open>
  C8. Whatever UpdatePreferences answers, the user's row is still there afterwards, and
  every field of it that the body does not supply (other than \<^verbatim>\<open>updated_at\<close>) has
  the value it had before the call.
\<close>

theorem patch_leaves_other_fields:
  assumes "onRequestPatch db userId (Inr body) now = (res, db')"
      and "rows db userId = Some r"
  shows "\<exists>r'. rows db' userId = Some r' \<and>
           user_id r' = user_id r \<and>
           (req_theme body = None \<longrightarrow> theme r' = theme r) \<and>
           (req_page_size body = None \<longrightarrow> page_size r' = page_size r) \<and>
           (req_view_mode body = None \<longrightarrow> view_mode r' = view_mode r) \<and>
           (req_density body = None \<longrightarrow> density r' = density r) \<and>
           (req_tag_layout body = None \<longrightarrow> tag_layout r' = tag_layout r) \<and>
           (req_sort_by body = None \<longrightarrow> sort_by r' = sort_by r)"
proof -
  from assms(1) have d: "db' = snd (onRequestPatch db userId (Inr body) now)" by simp
  from patch_rows [of db userId body now]
  consider "rows db' = rows db"
    | a b where "rows db' userId =
        Some (foldl assign r (build_updates body a b @ [SetUpdatedAt now]))"
    using assms(2) d by auto
  then show ?thesis
  proof cases
    case 1
    with assms(2) show ?thesis by simp
  next
    case 2
    then show ?thesis using fields_after_updates [of r body a b now] by simp
  qed
qed


theorem patch_leaves_other_fields_witness:
  "\<exists>r'. rows (snd (onRequestPatch migrated ''u1''
            (Inr (no_fields\<lparr>req_theme := Some ''dark''\<rparr>)) ''2025-06-01T12:00:00.000Z'')) ''u1'' =
            Some r' \<and>
        theme r' = ''dark'' \<and> user_id r' = ''u1'' \<and> page_size r' = 20 \<and>
        view_mode r' = ''list'' \<and> density r' = ''normal'' \<and>
        tag_layout r' = Some ''masonry'' \<and> sort_by r' = Some ''created''"
proof -
  let ?body = "no_fields\<lparr>req_theme := Some ''dark''\<rparr>"
  let ?run = "onRequestPatch migrated ''u1'' (Inr ?body) ''2025-06-01T12:00:00.000Z''"
  have e: "?run = (fst ?run, snd ?run)" by simp
  have r: "rows migrated ''u1'' = Some row1" by simp
  have f: "faults migrated = []" by simp
  have v: "validate ?body = None"
    by (simp add: validate_def invalid_enum_def invalid_page_size_def no_fields_def)
  have b: "build_updates ?body True True = [SetTheme ''dark'']"
    by (simp add: build_updates_def no_fields_def)
  have t: "\<exists>r'. rows (snd ?run) ''u1'' = Some r' \<and> theme r' = ''dark''"
    by (simp add: patch_running_rows [OF f] v b)
  from patch_leaves_other_fields [OF e r] t show ?thesis
    by (auto simp add: no_fields_def row1_def)
qed

text \<open>
  C1. A body with a truthy invalid value (a non-empty string outside the values its field
  allows, or a page size other than 0 outside 10 to 100) never changes the table, and no
  row is read: the handler runs its two schema probes first, and once both have returned
  it answers \<^verbatim>\<open>badRequest\<close> with the message of the first check that fails, in the
  order theme, page size, view mode, density, tag layout, sort. A probe that throws ends
  the request with \<^verbatim>\<open>internalError\<close> instead.
\<close>

theorem truthy_invalid_value_is_rejected_after_the_probes:
  fixes body :: UpdatePreferencesRequest
  defines "bad_theme \<equiv>
    \<exists>s. req_theme body = Some s \<and> s \<noteq> '''' \<and> s \<notin> {''light'', ''dark''}"
  defines "bad_page_size \<equiv>
    \<exists>n. req_page_size body = Some n \<and> n \<noteq> 0 \<and> (n < 10 \<or> 100 < n)"
  defines "bad_view_mode \<equiv>
    \<exists>s. req_view_mode body = Some s \<and> s \<noteq> '''' \<and>
        s \<notin> {''list'', ''card'', ''minimal'', ''title''}"
  defines "bad_density \<equiv>
    \<exists>s. req_density body = Some s \<and> s \<noteq> '''' \<and>
        s \<notin> {''compact'', ''normal'', ''comfortable''}"
  defines "bad_tag_layout \<equiv>
    \<exists>s. req_tag_layout body = Some s \<and> s \<noteq> '''' \<and> s \<notin> {''grid'', ''masonry''}"
  defines "bad_sort_by \<equiv>
    \<exists>s. req_sort_by body = Some s \<and> s \<noteq> '''' \<and>
        s \<notin> {''created'', ''updated'', ''pinned'', ''popular''}"
  assumes bad: "bad_theme \<or> bad_page_size \<or> bad_view_mode \<or> bad_density \<or>
                bad_tag_layout \<or> bad_sort_by"
      and run: "onRequestPatch db userId (Inr body) now = (res, db')"
  shows "rows db' = rows db \<and>
         (case fst (hasTagLayoutColumn db) of
            Inl e \<Rightarrow>
              res = internalError ''Failed to update preferences'' \<and>
              executed db' = executed db @ [SelectTagLayout]
          | Inr a \<Rightarrow>
              executed db' = executed db @ [SelectTagLayout, SelectSortBy] \<and>
              (case fst (hasSortByColumn (advance SelectTagLayout db)) of
                 Inl e \<Rightarrow> res = internalError ''Failed to update preferences''
               | Inr b \<Rightarrow>
                   res = badRequest
                     (if bad_theme then ''Invalid theme value''
                      else if bad_page_size then ''Page size must be between 10 and 100''
                      else if bad_view_mode then ''Invalid view mode''
                      else if bad_density then ''Invalid density value''
                      else if bad_tag_layout then ''Invalid tag layout value''
                      else ''Invalid sort_by value'')))"
proof -
  have i: "invalid_enum (req_theme body) [''light'', ''dark''] = bad_theme"
    "invalid_page_size (req_page_size body) = bad_page_size"
    "invalid_enum (req_view_mode body) [''list'', ''card'', ''minimal'', ''title''] = bad_view_mode"
    "invalid_enum (req_density body) [''compact'', ''normal'', ''comfortable''] = bad_density"
    "invalid_enum (req_tag_layout body) [''grid'', ''masonry''] = bad_tag_layout"
    "invalid_enum (req_sort_by body) [''created'', ''updated'', ''pinned'', ''popular''] =
       bad_sort_by"
    unfolding bad_theme_def bad_page_size_def bad_view_mode_def bad_density_def
      bad_tag_layout_def bad_sort_by_def invalid_enum_def invalid_page_size_def
    by (auto split: option.splits)
  have v: "validate body = Some
                     (if bad_theme then ''Invalid theme value''
                      else if bad_page_size then ''Page size must be between 10 and 100''
                      else if bad_view_mode then ''Invalid view mode''
                      else if bad_density then ''Invalid density value''
                      else if bad_tag_layout then ''Invalid tag layout value''
                      else ''Invalid sort_by value'')"
    using bad unfolding validate_def i by auto
  show ?thesis
    using run unfolding patch_invalid [OF v]
    by (auto split: sum.splits)
qed

theorem truthy_invalid_value_is_rejected_after_the_probes_witness:
  "fst (onRequestPatch migrated ''u1''
     (Inr (no_fields\<lparr>req_theme := Some ''blue'', req_view_mode := Some ''bogus''\<rparr>)) noon) =
     badRequest ''Invalid theme value'' \<and>
   fst (onRequestPatch unmigrated ''u1'' (Inr (no_fields\<lparr>req_page_size := Some 101\<rparr>)) noon) =
     badRequest ''Page size must be between 10 and 100'' \<and>
   fst (onRequestPatch migrated ''u1'' (Inr (no_fields\<lparr>req_sort_by := Some ''newest''\<rparr>)) noon) =
     badRequest ''Invalid sort_by value'' \<and>
   rows (snd (onRequestPatch migrated ''u1''
     (Inr (no_fields\<lparr>req_sort_by := Some ''newest''\<rparr>)) noon)) = rows migrated \<and>
   executed (snd (onRequestPatch migrated ''u1''
     (Inr (no_fields\<lparr>req_sort_by := Some ''newest''\<rparr>)) noon)) =
     [SelectTagLayout, SelectSortBy]"
proof -
  let ?b1 = "no_fields\<lparr>req_theme := Some ''blue'', req_view_mode := Some ''bogus''\<rparr>"
  let ?b2 = "no_fields\<lparr>req_page_size := Some 101\<rparr>"
  let ?b3 = "no_fields\<lparr>req_sort_by := Some ''newest''\<rparr>"
  let ?r1 = "onRequestPatch migrated ''u1'' (Inr ?b1) noon"
  let ?r2 = "onRequestPatch unmigrated ''u1'' (Inr ?b2) noon"
  let ?r3 = "onRequestPatch migrated ''u1'' (Inr ?b3) noon"
  have e: "?r1 = (fst ?r1, snd ?r1)" "?r2 = (fst ?r2, snd ?r2)" "?r3 = (fst ?r3, snd ?r3)"
    by simp_all
  have p: "fst (hasTagLayoutColumn migrated) = Inr True"
    "fst (hasSortByColumn (advance SelectTagLayout migrated)) = Inr True"
    "fst (hasTagLayoutColumn unmigrated) = Inr False"
    "fst (hasSortByColumn (advance SelectTagLayout unmigrated)) = Inr False"
    by (simp_all add: hasTagLayoutColumn_running hasSortByColumn_running)
  have f: "req_theme ?b1 = Some ''blue''" "req_view_mode ?b1 = Some ''bogus''"
    "req_page_size ?b2 = Some 101" "req_theme ?b2 = None"
    "req_sort_by ?b3 = Some ''newest''" "req_theme ?b3 = None" "req_page_size ?b3 = None"
    "req_view_mode ?b3 = None" "req_density ?b3 = None" "req_tag_layout ?b3 = None"
    by (simp_all add: no_fields_def)
  from truthy_invalid_value_is_rejected_after_the_probes [OF _ e(1)]
    truthy_invalid_value_is_rejected_after_the_probes [OF _ e(2)]
    truthy_invalid_value_is_rejected_after_the_probes [OF _ e(3)]
  show ?thesis
    by (simp add: p f)
qed

text \<open>
  C1 as the specification words it, "a field with an invalid value ... without touching
  the store: no store read or write is executed before the validation result", does not
  hold: for \<^verbatim>\<open>{view_mode: "bogus"}\<close> the two probe reads are executed before the 400
  is returned, when the first probe throws the answer is a 500, and the invalid value
  \<^verbatim>\<open>{view_mode: ""}\<close> is not rejected at all.
\<close>

theorem invalid_view_mode_is_answered_after_two_reads:
  "fst (onRequestPatch migrated ''u1'' (Inr (no_fields\<lparr>req_view_mode := Some ''bogus''\<rparr>)) noon) =
     badRequest ''Invalid view mode'' \<and>
   executed (snd (onRequestPatch migrated ''u1''
     (Inr (no_fields\<lparr>req_view_mode := Some ''bogus''\<rparr>)) noon)) =
     [SelectTagLayout, SelectSortBy] \<and>
   fst (onRequestPatch (migrated\<lparr>faults := [Some NotAnError]\<rparr>) ''u1''
     (Inr (no_fields\<lparr>req_view_mode := Some ''bogus''\<rparr>)) noon) =
     internalError ''Failed to update preferences'' \<and>
   fst (onRequestPatch migrated ''u1'' (Inr (no_fields\<lparr>req_view_mode := Some ''''\<rparr>)) noon) =
     success
       \<lparr>res_theme = ''light'', res_page_size = 20, res_view_mode = '''',
        res_density = ''normal'', res_tag_layout = ''masonry'', res_sort_by = ''created'',
        res_updated_at = noon\<rparr>"
proof -
  have v: "validate (no_fields\<lparr>req_view_mode := Some ''bogus''\<rparr>) = Some ''Invalid view mode''"
    by (simp add: validate_def invalid_enum_def invalid_page_size_def no_fields_def)
  have p: "fst (hasTagLayoutColumn (migrated\<lparr>faults := [Some NotAnError]\<rparr>)) = Inl NotAnError"
    by (simp add: hasTagLayoutColumn_def select_tag_layout_def issue_def pending_def)
  have w: "validate (no_fields\<lparr>req_view_mode := Some ''''\<rparr>) = None"
    by (simp add: validate_def invalid_enum_def invalid_page_size_def no_fields_def)
  have b: "build_updates (no_fields\<lparr>req_view_mode := Some ''''\<rparr>) True True = [SetViewMode '''']"
    by (simp add: build_updates_def no_fields_def)
  show ?thesis
    by (simp add: patch_invalid [OF v] p hasTagLayoutColumn_running hasSortByColumn_running
        patch_running_response w b project_def row1_def)
qed

text \<open>
  C2. For a user without a row, GetPreferences answers \<^verbatim>\<open>notFound\<close> (or
  \<^verbatim>\<open>internalError\<close> when the store's read throws); UpdatePreferences answers
  \<^verbatim>\<open>badRequest\<close> or \<^verbatim>\<open>internalError\<close>, never \<^verbatim>\<open>notFound\<close> and never
  success; neither handler changes the table, so the row is not created.
\<close>

theorem no_row_no_success:
  assumes "rows db userId = None"
  shows "rows (snd (onRequestGet db userId)) = rows db \<and>
         fst (onRequestGet db userId) =
           (case pending db of
              None \<Rightarrow> notFound ''Preferences not found''
            | Some e \<Rightarrow> internalError ''Failed to get preferences'') \<and>
         rows (snd (onRequestPatch db userId json now)) = rows db \<and>
         (\<exists>m. fst (onRequestPatch db userId json now) = badRequest m \<or>
              fst (onRequestPatch db userId json now) = internalError m)"
proof -
  have g: "rows (snd (onRequestGet db userId)) = rows db \<and>
         fst (onRequestGet db userId) =
           (case pending db of
              None \<Rightarrow> notFound ''Preferences not found''
            | Some e \<Rightarrow> internalError ''Failed to get preferences'')"
    using assms
    by (simp add: onRequestGet_unfold select_by_user_id_result split: option.splits)
  have p: "rows (snd (onRequestPatch db userId json now)) = rows db \<and>
         (\<exists>m. fst (onRequestPatch db userId json now) = badRequest m \<or>
              fst (onRequestPatch db userId json now) = internalError m)"
  proof (cases json)
    case (Inl e)
    then show ?thesis by simp
  next
    case (Inr body)
    then show ?thesis
      using assms
      by (simp add: onRequestPatch_unfold Let_def select_by_user_id_result
          update_by_user_id_rows update_by_user_id_state
          split: sum.splits option.splits)
  qed
  from g p show ?thesis by simp
qed

theorem no_row_no_success_witness:
  "rows migrated ''u2'' = None \<and>
   onRequestGet migrated ''u2'' =
     (notFound ''Preferences not found'', advance (SelectByUserId ''u2'') migrated) \<and>
   rows (snd (onRequestPatch migrated ''u2'' (Inr (no_fields\<lparr>req_density := Some ''compact''\<rparr>)) noon))
     ''u2'' = None"
proof -
  have r: "rows migrated ''u2'' = None" by simp
  have e: "onRequestGet migrated ''u2'' =
      (fst (onRequestGet migrated ''u2''), snd (onRequestGet migrated ''u2''))" by simp
  show ?thesis
    using no_row_no_success [OF r, of "Inr (no_fields\<lparr>req_density := Some ''compact''\<rparr>)" noon]
    by (simp add: onRequestGet_unfold select_by_user_id_result)
qed

text \<open>
  C2 as the specification words it, "any operation of this handler fails with a NotFound
  condition", does not hold for UpdatePreferences: an update of \<^verbatim>\<open>theme\<close> for a user
  without a row ends in the 500 of the re-read.
\<close>

theorem update_without_a_row_is_internal:
  "rows migrated ''u2'' = None \<and>
   fst (onRequestPatch migrated ''u2'' (Inr (no_fields\<lparr>req_theme := Some ''dark''\<rparr>)) noon) =
     internalError ''Failed to load preferences after update''"
proof -
  have v: "validate (no_fields\<lparr>req_theme := Some ''dark''\<rparr>) = None"
    by (simp add: validate_def invalid_enum_def invalid_page_size_def no_fields_def)
  have b: "build_updates (no_fields\<lparr>req_theme := Some ''dark''\<rparr>) True True = [SetTheme ''dark'']"
    by (simp add: build_updates_def no_fields_def)
  show ?thesis by (simp add: patch_running_response v b)
qed

text \<open>
  C3. A body with \<^verbatim>\<open>page_size: 0\<close> passes the range check, and the value still
  counts as supplied when the assignments are built: \<^verbatim>\<open>page_size = 0\<close> is in the
  assignment list, and whenever the request succeeds the \<^verbatim>\<open>UPDATE\<close> carried it, the
  row holds 0 and the response reports 0.
\<close>

theorem page_size_zero_is_assigned:
  assumes "req_page_size body = Some 0"
  shows "\<not> invalid_page_size (req_page_size body) \<and>
         validate body \<noteq> Some ''Page size must be between 10 and 100'' \<and>
         SetPageSize 0 \<in> set (build_updates body a b) \<and>
         (\<forall>p db'. onRequestPatch db userId (Inr body) now = (success p, db') \<longrightarrow>
            res_page_size p = 0 \<and>
            map_option page_size (rows db' userId) = Some 0 \<and>
            (\<exists>us. SetPageSize 0 \<in> set us \<and> UpdateByUserId us userId \<in> set (executed db')))"
proof -
  have i: "\<not> invalid_page_size (req_page_size body)"
    using assms by (simp add: invalid_page_size_def)
  have v: "validate body \<noteq> Some ''Page size must be between 10 and 100''"
    using i by (simp add: validate_def)
  have m: "SetPageSize 0 \<in> set (build_updates body a b)" for a b
    using assms by (simp add: build_updates_def)
  have e: "res_page_size p = 0 \<and>
            map_option page_size (rows db' userId) = Some 0 \<and>
            (\<exists>us. SetPageSize 0 \<in> set us \<and> UpdateByUserId us userId \<in> set (executed db'))"
    if run: "onRequestPatch db userId (Inr body) now = (success p, db')" for p db'
  proof -
    from patch_success [OF run] obtain a' b' r where
      s: "if build_updates body a' b' = [] then
              masked_field body a' b' \<and> rows db' = rows db \<and> p = project (fetched db r) \<and>
              executed db' =
                executed db @ [SelectTagLayout, SelectSortBy, SelectByUserId userId]
            else
              rows db' =
                (rows db)(userId \<mapsto> foldl assign r (build_updates body a' b' @ [SetUpdatedAt now])) \<and>
              p = project (fetched db
                    (foldl assign r (build_updates body a' b' @ [SetUpdatedAt now]))) \<and>
              executed db' =
                executed db @
                [SelectTagLayout, SelectSortBy,
                 UpdateByUserId (build_updates body a' b' @ [SetUpdatedAt now]) userId,
                 SelectByUserId userId]"
      by blast
    from m [of a' b'] have n: "build_updates body a' b' \<noteq> []" by auto
    let ?us = "build_updates body a' b' @ [SetUpdatedAt now]"
    from s n have r: "rows db' userId = Some (foldl assign r ?us)"
      and p: "p = project (fetched db (foldl assign r ?us))"
      and x: "UpdateByUserId ?us userId \<in> set (executed db')"
      by simp_all
    have z: "page_size (foldl assign r ?us) = 0"
      using fields_after_updates [of r body a' b' now] assms by simp
    have u: "SetPageSize 0 \<in> set ?us" using m [of a' b'] by simp
    have c1: "res_page_size p = 0" using p z by (simp add: project_def)
    have c2: "map_option page_size (rows db' userId) = Some 0" using r z by simp
    have c3: "\<exists>us. SetPageSize 0 \<in> set us \<and> UpdateByUserId us userId \<in> set (executed db')"
      using x u by blast
    from c1 c2 c3 show ?thesis by blast
  qed
  from i v m e show ?thesis by blast
qed

theorem page_size_zero_is_assigned_witness:
  "validate (no_fields\<lparr>req_page_size := Some 0\<rparr>) = None \<and>
   SetPageSize 0 \<in> set (build_updates (no_fields\<lparr>req_page_size := Some 0\<rparr>) False False) \<and>
   (\<exists>p. fst (onRequestPatch unmigrated ''u1'' (Inr (no_fields\<lparr>req_page_size := Some 0\<rparr>)) noon) =
          success p \<and> res_page_size p = 0) \<and>
   map_option page_size
     (rows (snd (onRequestPatch unmigrated ''u1''
        (Inr (no_fields\<lparr>req_page_size := Some 0\<rparr>)) noon)) ''u1'') = Some 0"
proof -
  let ?body = "no_fields\<lparr>req_page_size := Some 0\<rparr>"
  let ?run = "onRequestPatch unmigrated ''u1'' (Inr ?body) noon"
  have b: "req_page_size ?body = Some 0" by (simp add: no_fields_def)
  obtain p where f: "fst ?run = success p"
    by (simp add: patch_running_response)
  then have e: "?run = (success p, snd ?run)" by (metis prod.collapse)
  from page_size_zero_is_assigned [OF b, of False False unmigrated "''u1''" noon] e f
  show ?thesis by auto
qed

text \<open>
  C3 as the specification words it, "no page_size assignment is written to the store",
  does not hold: \<^verbatim>\<open>{page_size: 0}\<close> executes
  \<^verbatim>\<open>UPDATE ... SET page_size = 0, updated_at = ...\<close> and the row holds 0 afterwards.
\<close>

theorem page_size_zero_is_written:
  "fst (onRequestPatch migrated ''u1'' (Inr (no_fields\<lparr>req_page_size := Some 0\<rparr>)) noon) =
     success
       \<lparr>res_theme = ''light'', res_page_size = 0, res_view_mode = ''list'',
        res_density = ''normal'', res_tag_layout = ''masonry'', res_sort_by = ''created'',
        res_updated_at = noon\<rparr> \<and>
   map_option page_size
     (rows (snd (onRequestPatch migrated ''u1''
        (Inr (no_fields\<lparr>req_page_size := Some 0\<rparr>)) noon)) ''u1'') = Some 0 \<and>
   executed (snd (onRequestPatch migrated ''u1''
        (Inr (no_fields\<lparr>req_page_size := Some 0\<rparr>)) noon)) =
     [SelectTagLayout, SelectSortBy,
      UpdateByUserId [SetPageSize 0, SetUpdatedAt noon] ''u1'', SelectByUserId ''u1'']"
  by (simp add: patch_running_response patch_running_rows patch_running_executed
      project_def row1_def)

text \<open>
  C4. A success response of UpdatePreferences comes either after an \<^verbatim>\<open>UPDATE\<close>
  (the assignment list was not empty), and then the row's \<^verbatim>\<open>updated_at\<close> and the
  response's are the current time; or from the branch for masked optional fields (the
  list was empty), and then no \<^verbatim>\<open>UPDATE\<close> was executed, the table is as before and
  the response reports the \<^verbatim>\<open>updated_at\<close> the row already had.
\<close>

theorem update_stamps_updated_at:
  assumes "onRequestPatch db userId (Inr body) now = (success p, db')"
  shows "\<exists>a b. fst (hasTagLayoutColumn db) = Inr a \<and>
           fst (hasSortByColumn (advance SelectTagLayout db)) = Inr b \<and>
           (if build_updates body a b = [] then
              rows db' = rows db \<and>
              (\<exists>r. rows db userId = Some r \<and> res_updated_at p = updated_at r) \<and>
              executed db' =
                executed db @ [SelectTagLayout, SelectSortBy, SelectByUserId userId]
            else
              (\<exists>r'. rows db' userId = Some r' \<and> updated_at r' = now) \<and>
              res_updated_at p = now \<and>
              executed db' =
                executed db @
                [SelectTagLayout, SelectSortBy,
                 UpdateByUserId (build_updates body a b @ [SetUpdatedAt now]) userId,
                 SelectByUserId userId])"
proof -
  from patch_success [OF assms] obtain a b r where
    probes: "fst (hasTagLayoutColumn db) = Inr a"
      "fst (hasSortByColumn (advance SelectTagLayout db)) = Inr b"
    and row: "rows db userId = Some r"
    and s: "if build_updates body a b = [] then
              masked_field body a b \<and> rows db' = rows db \<and> p = project (fetched db r) \<and>
              executed db' =
                executed db @ [SelectTagLayout, SelectSortBy, SelectByUserId userId]
            else
              rows db' =
                (rows db)(userId \<mapsto> foldl assign r (build_updates body a b @ [SetUpdatedAt now])) \<and>
              p = project (fetched db
                    (foldl assign r (build_updates body a b @ [SetUpdatedAt now]))) \<and>
              executed db' =
                executed db @
                [SelectTagLayout, SelectSortBy,
                 UpdateByUserId (build_updates body a b @ [SetUpdatedAt now]) userId,
                 SelectByUserId userId]"
    by blast
  have "if build_updates body a b = [] then
              rows db' = rows db \<and>
              (\<exists>r. rows db userId = Some r \<and> res_updated_at p = updated_at r) \<and>
              executed db' =
                executed db @ [SelectTagLayout, SelectSortBy, SelectByUserId userId]
            else
              (\<exists>r'. rows db' userId = Some r' \<and> updated_at r' = now) \<and>
              res_updated_at p = now \<and>
              executed db' =
                executed db @
                [SelectTagLayout, SelectSortBy,
                 UpdateByUserId (build_updates body a b @ [SetUpdatedAt now]) userId,
                 SelectByUserId userId]"
    using s row fields_after_updates [of r body a b now]
    by (simp add: project_def split: if_splits)
  with probes show ?thesis by blast
qed

theorem update_stamps_updated_at_witness:
  "(\<exists>p. fst (onRequestPatch migrated ''u1'' (Inr (no_fields\<lparr>req_density := Some ''compact''\<rparr>)) noon) =
          success p \<and> res_updated_at p = noon \<and> res_density p = ''compact'') \<and>
   map_option updated_at
     (rows (snd (onRequestPatch migrated ''u1''
        (Inr (no_fields\<lparr>req_density := Some ''compact''\<rparr>)) noon)) ''u1'') = Some noon"
proof -
  let ?body = "no_fields\<lparr>req_density := Some ''compact''\<rparr>"
  let ?run = "onRequestPatch migrated ''u1'' (Inr ?body) noon"
  obtain p where f: "fst ?run = success p" and d: "res_density p = ''compact''"
    by (simp add: patch_running_response project_def)
  then have e: "?run = (success p, snd ?run)" by (metis prod.collapse)
  from update_stamps_updated_at [OF e] f d show ?thesis by auto
qed

text \<open>
  C4 as the specification words it, "every success response, including the no-op
  success", does not hold: on a table without \<^verbatim>\<open>tag_layout\<close> the body
  \<^verbatim>\<open>{tag_layout: "masonry"}\<close> succeeds and \<^verbatim>\<open>updated_at\<close> keeps its old value.
\<close>

theorem masked_update_keeps_updated_at:
  "fst (onRequestPatch unmigrated ''u1''
     (Inr (no_fields\<lparr>req_tag_layout := Some ''masonry''\<rparr>)) noon) =
     success
       \<lparr>res_theme = ''light'', res_page_size = 20, res_view_mode = ''list'',
        res_density = ''normal'', res_tag_layout = ''grid'', res_sort_by = ''popular'',
        res_updated_at = ''2025-01-01T00:00:00.000Z''\<rparr> \<and>
   map_option updated_at
     (rows (snd (onRequestPatch unmigrated ''u1''
        (Inr (no_fields\<lparr>req_tag_layout := Some ''masonry''\<rparr>)) noon)) ''u1'') =
     Some ''2025-01-01T00:00:00.000Z'' \<and>
   noon \<noteq> ''2025-01-01T00:00:00.000Z''"
  by (simp add: patch_running_response patch_running_rows project_def row1_def noon_def)

text \<open>
  C7. When both probes have returned, the body has passed validation and the assignment
  list is empty, the table is left as it is and no \<^verbatim>\<open>UPDATE\<close> is executed. If a
  supplied optional field was masked by its probe, the handler reads the user's row once:
  a row makes the answer a success that reports it with the two defaults, no row makes it
  \<^verbatim>\<open>internalError('Failed to load preferences')\<close>, a read that throws makes it the
  handler's general \<^verbatim>\<open>internalError\<close>. Otherwise the answer is
  \<^verbatim>\<open>badRequest('No valid fields to update')\<close>, with nothing read beyond the probes.
\<close>

theorem empty_assignment_list:
  assumes "fst (hasTagLayoutColumn db) = Inr a"
      and "fst (hasSortByColumn (advance SelectTagLayout db)) = Inr b"
      and "validate body = None"
      and "build_updates body a b = []"
      and "onRequestPatch db userId (Inr body) now = (res, db')"
  shows "rows db' = rows db \<and>
         (if (req_tag_layout body \<noteq> None \<and> \<not> a) \<or> (req_sort_by body \<noteq> None \<and> \<not> b)
          then
            executed db' =
              executed db @ [SelectTagLayout, SelectSortBy, SelectByUserId userId] \<and>
            res =
              (case fst (select_by_user_id userId
                      (advance SelectSortBy (advance SelectTagLayout db))) of
                 Inl e \<Rightarrow> internalError ''Failed to update preferences''
               | Inr None \<Rightarrow> internalError ''Failed to load preferences''
               | Inr (Some r) \<Rightarrow>
                   success
                     \<lparr>res_theme = theme r, res_page_size = page_size r,
                      res_view_mode = view_mode r, res_density = density r,
                      res_tag_layout = (case tag_layout r of None \<Rightarrow> ''grid'' | Some v \<Rightarrow> v),
                      res_sort_by = (case sort_by r of None \<Rightarrow> ''popular'' | Some v \<Rightarrow> v),
                      res_updated_at = updated_at r\<rparr>)
          else
            executed db' = executed db @ [SelectTagLayout, SelectSortBy] \<and>
            res = badRequest ''No valid fields to update'')"
  using assms(5)
  by (auto simp add: onRequestPatch_unfold Let_def assms(1-4) masked_field_def project_def
      split: sum.splits option.splits)

theorem empty_assignment_list_witness:
  "fst (onRequestPatch unmigrated ''u1''
     (Inr (no_fields\<lparr>req_tag_layout := Some ''masonry''\<rparr>)) noon) =
     success
       \<lparr>res_theme = ''light'', res_page_size = 20, res_view_mode = ''list'',
        res_density = ''normal'', res_tag_layout = ''grid'', res_sort_by = ''popular'',
        res_updated_at = ''2025-01-01T00:00:00.000Z''\<rparr> \<and>
   rows (snd (onRequestPatch unmigrated ''u1''
     (Inr (no_fields\<lparr>req_tag_layout := Some ''masonry''\<rparr>)) noon)) = rows unmigrated \<and>
   executed (snd (onRequestPatch unmigrated ''u1''
     (Inr (no_fields\<lparr>req_tag_layout := Some ''masonry''\<rparr>)) noon)) =
     [SelectTagLayout, SelectSortBy, SelectByUserId ''u1''] \<and>
   fst (onRequestPatch migrated ''u1'' (Inr no_fields) noon) =
     badRequest ''No valid fields to update'' \<and>
   executed (snd (onRequestPatch migrated ''u1'' (Inr no_fields) noon)) =
     [SelectTagLayout, SelectSortBy]"
proof -
  let ?m = "no_fields\<lparr>req_tag_layout := Some ''masonry''\<rparr>"
  let ?r1 = "onRequestPatch unmigrated ''u1'' (Inr ?m) noon"
  let ?r2 = "onRequestPatch migrated ''u1'' (Inr no_fields) noon"
  have a1: "fst (hasTagLayoutColumn unmigrated) = Inr False"
    and b1: "fst (hasSortByColumn (advance SelectTagLayout unmigrated)) = Inr False"
    and a2: "fst (hasTagLayoutColumn migrated) = Inr True"
    and b2: "fst (hasSortByColumn (advance SelectTagLayout migrated)) = Inr True"
    by (simp_all add: hasTagLayoutColumn_running hasSortByColumn_running)
  have e1: "?r1 = (fst ?r1, snd ?r1)" and e2: "?r2 = (fst ?r2, snd ?r2)" by simp_all
  have s: "fst (select_by_user_id ''u1'' (advance SelectSortBy (advance SelectTagLayout unmigrated))) =
      Inr (Some (row1\<lparr>tag_layout := None, sort_by := None\<rparr>))"
    by (simp add: select_by_user_id_result fetched_def)
  have v1: "validate ?m = None" and u1: "build_updates ?m False False = []"
    and v2: "validate no_fields = None" and u2: "build_updates no_fields True True = []"
    by simp_all
  have q1: "req_tag_layout ?m = Some ''masonry''" and q2: "req_tag_layout no_fields = None"
    and q3: "req_sort_by no_fields = None"
    by (simp_all add: no_fields_def)
  from empty_assignment_list [OF a1 b1 v1 u1 e1] empty_assignment_list [OF a2 b2 v2 u2 e2]
  show ?thesis
    by (simp add: s q1 q2 q3 row1_def)
qed

text \<open>
  C7 as the specification words it, "the request is a no-op success", does not hold for
  every such request: for a user without a row the re-read finds nothing and the answer
  is a 500.
\<close>

theorem masked_update_without_a_row_is_internal:
  "rows unmigrated ''u2'' = None \<and>
   fst (hasTagLayoutColumn unmigrated) = Inr False \<and>
   validate (no_fields\<lparr>req_tag_layout := Some ''masonry''\<rparr>) = None \<and>
   build_updates (no_fields\<lparr>req_tag_layout := Some ''masonry''\<rparr>) False False = [] \<and>
   fst (onRequestPatch unmigrated ''u2''
     (Inr (no_fields\<lparr>req_tag_layout := Some ''masonry''\<rparr>)) noon) =
     internalError ''Failed to load preferences''"
  by (simp add: patch_running_response hasTagLayoutColumn_running)

text \<open>
  C9. On an honest store, when an update body has been applied with success, applying the
  same body again leaves each of the six mutable fields of the row as the first
  application left it, whatever the second request answers. If the assignment list is
  not empty, the first application leaves its clock reading in \<^verbatim>\<open>updated_at\<close> and a
  second application that succeeds leaves its own; if the list is empty (only masked
  optional fields), neither application changes the table.
\<close>

theorem same_body_twice:
  assumes "honest db"
      and "onRequestPatch db userId (Inr body) now1 = (success p1, db1)"
      and "onRequestPatch db1 userId (Inr body) now2 = (res2, db2)"
  shows "\<exists>r1 r2. rows db1 userId = Some r1 \<and> rows db2 userId = Some r2 \<and>
           theme r2 = theme r1 \<and> page_size r2 = page_size r1 \<and>
           view_mode r2 = view_mode r1 \<and> density r2 = density r1 \<and>
           tag_layout r2 = tag_layout r1 \<and> sort_by r2 = sort_by r1 \<and>
           (if build_updates body (has_tag_layout db) (has_sort_by db) = []
            then rows db1 = rows db \<and> rows db2 = rows db
            else updated_at r1 = now1 \<and>
                 (updated_at r2 = now2 \<or> rows db2 = rows db1) \<and>
                 (\<forall>p2. res2 = success p2 \<longrightarrow> updated_at r2 = now2))"
proof -
  let ?a = "has_tag_layout db" and ?b = "has_sort_by db"
  let ?U = "build_updates body ?a ?b"
  from patch_success [OF assms(2)] obtain a b r where
    pa: "fst (hasTagLayoutColumn db) = Inr a"
    and pb: "fst (hasSortByColumn (advance SelectTagLayout db)) = Inr b"
    and row: "rows db userId = Some r"
    and s: "if build_updates body a b = [] then
              masked_field body a b \<and> rows db1 = rows db \<and> p1 = project (fetched db r) \<and>
              executed db1 =
                executed db @ [SelectTagLayout, SelectSortBy, SelectByUserId userId]
            else
              rows db1 =
                (rows db)(userId \<mapsto> foldl assign r (build_updates body a b @ [SetUpdatedAt now1])) \<and>
              p1 = project (fetched db
                    (foldl assign r (build_updates body a b @ [SetUpdatedAt now1]))) \<and>
              executed db1 =
                executed db @
                [SelectTagLayout, SelectSortBy,
                 UpdateByUserId (build_updates body a b @ [SetUpdatedAt now1]) userId,
                 SelectByUserId userId]"
    by blast
  have a: "a = ?a" using honest_tag_layout [OF assms(1) pa] .
  have b: "b = ?b" using honest_sort_by [OF honest_advance [OF assms(1)] pb] by simp
  have d1: "db1 = snd (onRequestPatch db userId (Inr body) now1)" using assms(2) by simp
  have h1: "honest db1" unfolding d1 by (rule honest_patch [OF assms(1)])
  have sch: "has_tag_layout db1 = ?a" "has_sort_by db1 = ?b" unfolding d1 by simp_all
  have d2: "db2 = snd (onRequestPatch db1 userId (Inr body) now2)" using assms(3) by simp
  from patch_rows_probes [of db1 userId body now2]
  consider (same) "rows db2 = rows db1"
    | (upd) a' b' r' where "fst (hasTagLayoutColumn db1) = Inr a'"
        "fst (hasSortByColumn (advance SelectTagLayout db1)) = Inr b'"
        "build_updates body a' b' \<noteq> []" "rows db1 userId = Some r'"
        "rows db2 = (rows db1)(userId \<mapsto> foldl assign r' (build_updates body a' b' @ [SetUpdatedAt now2]))"
    unfolding d2 by blast
  then have second: "rows db2 = rows db1 \<or>
      (?U \<noteq> [] \<and> (\<exists>r'. rows db1 userId = Some r' \<and>
         rows db2 = (rows db1)(userId \<mapsto> foldl assign r' (?U @ [SetUpdatedAt now2]))))"
  proof cases
    case same
    then show ?thesis by simp
  next
    case upd
    have "a' = ?a" using honest_tag_layout [OF h1 upd(1)] sch by simp
    moreover have "b' = ?b"
      using honest_sort_by [OF honest_advance [OF h1] upd(2)] sch by simp
    ultimately show ?thesis using upd(3,4,5) by auto
  qed
  have succ2: "updated_at r2 = now2"
    if "res2 = success p2" and "?U \<noteq> []" and "rows db2 userId = Some r2" for p2 r2
  proof -
    from that(1) assms(3) have run2: "onRequestPatch db1 userId (Inr body) now2 = (success p2, db2)"
      by simp
    from patch_success [OF run2] obtain a' b' r' where
      pa': "fst (hasTagLayoutColumn db1) = Inr a'"
      and pb': "fst (hasSortByColumn (advance SelectTagLayout db1)) = Inr b'"
      and s': "if build_updates body a' b' = [] then
              masked_field body a' b' \<and> rows db2 = rows db1 \<and> p2 = project (fetched db1 r') \<and>
              executed db2 =
                executed db1 @ [SelectTagLayout, SelectSortBy, SelectByUserId userId]
            else
              rows db2 =
                (rows db1)(userId \<mapsto> foldl assign r' (build_updates body a' b' @ [SetUpdatedAt now2])) \<and>
              p2 = project (fetched db1
                    (foldl assign r' (build_updates body a' b' @ [SetUpdatedAt now2]))) \<and>
              executed db2 =
                executed db1 @
                [SelectTagLayout, SelectSortBy,
                 UpdateByUserId (build_updates body a' b' @ [SetUpdatedAt now2]) userId,
                 SelectByUserId userId]"
      by blast
    have "a' = ?a" using honest_tag_layout [OF h1 pa'] sch by simp
    moreover have "b' = ?b"
      using honest_sort_by [OF honest_advance [OF h1] pb'] sch by simp
    ultimately have "rows db2 =
        (rows db1)(userId \<mapsto> foldl assign r' (?U @ [SetUpdatedAt now2]))"
      using s' that(2) by simp
    with that(3) have "r2 = foldl assign r' (?U @ [SetUpdatedAt now2])" by simp
    then show ?thesis using fields_after_updates [of r' body ?a ?b now2] by simp
  qed
  show ?thesis
  proof (cases "?U = []")
    case True
    with s a b have r1: "rows db1 = rows db" by simp
    with second True have "rows db2 = rows db" by simp
    with r1 row True show ?thesis by simp
  next
    case False
    define R1 where "R1 = foldl assign r (?U @ [SetUpdatedAt now1])"
    define R2 where "R2 = foldl assign R1 (?U @ [SetUpdatedAt now2])"
    from s a b False have r1: "rows db1 userId = Some R1" by (simp add: R1_def)
    have t: "theme R2 = theme R1 \<and> page_size R2 = page_size R1 \<and> view_mode R2 = view_mode R1 \<and>
         density R2 = density R1 \<and> tag_layout R2 = tag_layout R1 \<and> sort_by R2 = sort_by R1 \<and>
         updated_at R1 = now1 \<and> updated_at R2 = now2"
      unfolding R1_def R2_def by (rule fields_after_updates_twice)
    from second show ?thesis
    proof
      assume e: "rows db2 = rows db1"
      then have r2: "rows db2 userId = Some R1" using r1 by simp
      have "now1 = now2" if "res2 = success p2" for p2
        using succ2 [OF that False r2] t by simp
      with r1 r2 e t False show ?thesis by auto
    next
      assume "?U \<noteq> [] \<and> (\<exists>r'. rows db1 userId = Some r' \<and>
         rows db2 = (rows db1)(userId \<mapsto> foldl assign r' (?U @ [SetUpdatedAt now2])))"
      with r1 have r2: "rows db2 userId = Some R2"
        by (auto simp add: R2_def)
      from r1 r2 t False show ?thesis by auto
    qed
  qed
qed


theorem same_body_twice_witness:
  "\<exists>r1 r2.
     rows (snd (onRequestPatch migrated ''u1'' (Inr (no_fields\<lparr>req_theme := Some ''dark''\<rparr>)) noon))
       ''u1'' = Some r1 \<and>
     rows (snd (onRequestPatch
        (snd (onRequestPatch migrated ''u1'' (Inr (no_fields\<lparr>req_theme := Some ''dark''\<rparr>)) noon))
        ''u1'' (Inr (no_fields\<lparr>req_theme := Some ''dark''\<rparr>)) evening)) ''u1'' = Some r2 \<and>
     theme r1 = ''dark'' \<and> theme r2 = ''dark'' \<and> page_size r2 = page_size r1 \<and>
     view_mode r2 = view_mode r1 \<and> density r2 = density r1 \<and>
     tag_layout r2 = tag_layout r1 \<and> sort_by r2 = sort_by r1 \<and>
     updated_at r1 = noon \<and> updated_at r2 = evening"
proof -
  let ?body = "no_fields\<lparr>req_theme := Some ''dark''\<rparr>"
  let ?run1 = "onRequestPatch migrated ''u1'' (Inr ?body) noon"
  let ?db1 = "snd ?run1"
  let ?run2 = "onRequestPatch ?db1 ''u1'' (Inr ?body) evening"
  have h: "honest migrated" by (simp add: honest_def)
  obtain p1 where f1: "fst ?run1 = success p1" by (simp add: patch_running_response)
  then have e1: "?run1 = (success p1, ?db1)" by (metis prod.collapse)
  have k: "faults ?db1 = []" by (simp add: patch_keeps_running)
  have r1: "rows ?db1 ''u1'' = Some (foldl assign row1 [SetTheme ''dark'', SetUpdatedAt noon])"
    by (simp add: patch_running_rows)
  obtain p2 where f2: "fst ?run2 = success p2"
    by (simp add: patch_running_response [OF k] r1)
  then have e2: "?run2 = (success p2, snd ?run2)" by (metis prod.collapse)
  from same_body_twice [OF h e1 e2] r1 show ?thesis by auto
qed

text \<open>
  C9 as the specification words it, "only updated_at differs, taking two distinct
  timestamps, both at or after the request time", does not hold: on a table without
  \<^verbatim>\<open>sort_by\<close> the body \<^verbatim>\<open>{sort_by: "created"}\<close> succeeds twice, at two different
  times, and \<^verbatim>\<open>updated_at\<close> stays the one old timestamp.
\<close>

theorem masked_update_twice_leaves_one_old_timestamp:
  "fst (onRequestPatch unmigrated ''u1'' (Inr (no_fields\<lparr>req_sort_by := Some ''created''\<rparr>)) noon) =
     success
       \<lparr>res_theme = ''light'', res_page_size = 20, res_view_mode = ''list'',
        res_density = ''normal'', res_tag_layout = ''grid'', res_sort_by = ''popular'',
        res_updated_at = ''2025-01-01T00:00:00.000Z''\<rparr> \<and>
   fst (onRequestPatch
     (snd (onRequestPatch unmigrated ''u1'' (Inr (no_fields\<lparr>req_sort_by := Some ''created''\<rparr>)) noon))
     ''u1'' (Inr (no_fields\<lparr>req_sort_by := Some ''created''\<rparr>)) evening) =
     success
       \<lparr>res_theme = ''light'', res_page_size = 20, res_view_mode = ''list'',
        res_density = ''normal'', res_tag_layout = ''grid'', res_sort_by = ''popular'',
        res_updated_at = ''2025-01-01T00:00:00.000Z''\<rparr> \<and>
   map_option updated_at (rows (snd (onRequestPatch
     (snd (onRequestPatch unmigrated ''u1'' (Inr (no_fields\<lparr>req_sort_by := Some ''created''\<rparr>)) noon))
     ''u1'' (Inr (no_fields\<lparr>req_sort_by := Some ''created''\<rparr>)) evening)) ''u1'') =
     Some ''2025-01-01T00:00:00.000Z'' \<and>
   noon \<noteq> evening"
proof -
  let ?body = "no_fields\<lparr>req_sort_by := Some ''created''\<rparr>"
  let ?db1 = "snd (onRequestPatch unmigrated ''u1'' (Inr ?body) noon)"
  have k: "faults ?db1 = []" by (simp add: patch_keeps_running)
  have r: "rows ?db1 = rows unmigrated" by (simp add: patch_running_rows)
  have f1: "fst (onRequestPatch unmigrated ''u1'' (Inr ?body) noon) =
     success
       \<lparr>res_theme = ''light'', res_page_size = 20, res_view_mode = ''list'',
        res_density = ''normal'', res_tag_layout = ''grid'', res_sort_by = ''popular'',
        res_updated_at = ''2025-01-01T00:00:00.000Z''\<rparr>"
    by (simp add: patch_running_response project_def row1_def)
  have f2: "fst (onRequestPatch ?db1 ''u1'' (Inr ?body) evening) =
     success
       \<lparr>res_theme = ''light'', res_page_size = 20, res_view_mode = ''list'',
        res_density = ''normal'', res_tag_layout = ''grid'', res_sort_by = ''popular'',
        res_updated_at = ''2025-01-01T00:00:00.000Z''\<rparr>"
    by (simp add: patch_running_response [OF k] r project_def row1_def)
  have u2: "map_option updated_at (rows (snd (onRequestPatch ?db1 ''u1'' (Inr ?body) evening)) ''u1'') =
     Some ''2025-01-01T00:00:00.000Z''"
    by (simp add: patch_running_rows [OF k] r row1_def)
  have ne: "noon \<noteq> evening" by (simp add: noon_def evening_def)
  from f1 f2 u2 ne show ?thesis by blast
qed

text \<open>
  C10. For each of the five string fields, a body that supplies the empty string is never
  answered with that field's validation message, whatever else it holds and whatever the
  store does. For \<^verbatim>\<open>theme\<close>, \<^verbatim>\<open>view_mode\<close> and \<^verbatim>\<open>density\<close> the empty string
  is then in the assignment list; for \<^verbatim>\<open>tag_layout\<close> and \<^verbatim>\<open>sort_by\<close> it is in the
  list exactly when the probe found the column. A request that succeeds has written each
  such empty string to the row and reports it. And for a user with a row, on a store that
  does not fail, each body that supplies just one of the five fields as the empty string
  (the column being there, for the two optional ones) succeeds and leaves the empty
  string in the row.
\<close>

theorem empty_string_is_assigned:
  "(req_theme body = Some '''' \<longrightarrow>
      fst (onRequestPatch db userId (Inr body) now) \<noteq> badRequest ''Invalid theme value'' \<and>
      SetTheme '''' \<in> set (build_updates body a b)) \<and>
   (req_view_mode body = Some '''' \<longrightarrow>
      fst (onRequestPatch db userId (Inr body) now) \<noteq> badRequest ''Invalid view mode'' \<and>
      SetViewMode '''' \<in> set (build_updates body a b)) \<and>
   (req_density body = Some '''' \<longrightarrow>
      fst (onRequestPatch db userId (Inr body) now) \<noteq> badRequest ''Invalid density value'' \<and>
      SetDensity '''' \<in> set (build_updates body a b)) \<and>
   (req_tag_layout body = Some '''' \<longrightarrow>
      fst (onRequestPatch db userId (Inr body) now) \<noteq>
        badRequest ''Invalid tag layout value'' \<and>
      (SetTagLayout '''' \<in> set (build_updates body a b)) = a) \<and>
   (req_sort_by body = Some '''' \<longrightarrow>
      fst (onRequestPatch db userId (Inr body) now) \<noteq> badRequest ''Invalid sort_by value'' \<and>
      (SetSortBy '''' \<in> set (build_updates body a b)) = b) \<and>
   (\<forall>p db'. onRequestPatch db userId (Inr body) now = (success p, db') \<longrightarrow>
      (req_theme body = Some '''' \<longrightarrow>
         res_theme p = '''' \<and> map_option theme (rows db' userId) = Some '''') \<and>
      (req_view_mode body = Some '''' \<longrightarrow>
         res_view_mode p = '''' \<and> map_option view_mode (rows db' userId) = Some '''') \<and>
      (req_density body = Some '''' \<longrightarrow>
         res_density p = '''' \<and> map_option density (rows db' userId) = Some '''') \<and>
      (req_tag_layout body = Some '''' \<and> fst (hasTagLayoutColumn db) = Inr True \<longrightarrow>
         res_tag_layout p = '''' \<and>
         map_option tag_layout (rows db' userId) = Some (Some '''')) \<and>
      (req_sort_by body = Some '''' \<and>
       fst (hasSortByColumn (advance SelectTagLayout db)) = Inr True \<longrightarrow>
         res_sort_by p = '''' \<and>
         map_option sort_by (rows db' userId) = Some (Some ''''))) \<and>
   (faults db = [] \<and> rows db userId = Some r \<longrightarrow>
      (\<exists>p. fst (onRequestPatch db userId (Inr (no_fields\<lparr>req_theme := Some ''''\<rparr>)) now) =
             success p \<and> res_theme p = '''' \<and> res_updated_at p = now) \<and>
      rows (snd (onRequestPatch db userId (Inr (no_fields\<lparr>req_theme := Some ''''\<rparr>)) now))
        userId = Some (r\<lparr>theme := '''', updated_at := now\<rparr>) \<and>
      (\<exists>p. fst (onRequestPatch db userId (Inr (no_fields\<lparr>req_view_mode := Some ''''\<rparr>)) now) =
             success p \<and> res_view_mode p = '''' \<and> res_updated_at p = now) \<and>
      rows (snd (onRequestPatch db userId (Inr (no_fields\<lparr>req_view_mode := Some ''''\<rparr>)) now))
        userId = Some (r\<lparr>view_mode := '''', updated_at := now\<rparr>) \<and>
      (\<exists>p. fst (onRequestPatch db userId (Inr (no_fields\<lparr>req_density := Some ''''\<rparr>)) now) =
             success p \<and> res_density p = '''' \<and> res_updated_at p = now) \<and>
      rows (snd (onRequestPatch db userId (Inr (no_fields\<lparr>req_density := Some ''''\<rparr>)) now))
        userId = Some (r\<lparr>density := '''', updated_at := now\<rparr>) \<and>
      (has_tag_layout db \<longrightarrow>
        (\<exists>p. fst (onRequestPatch db userId
                 (Inr (no_fields\<lparr>req_tag_layout := Some ''''\<rparr>)) now) =
               success p \<and> res_tag_layout p = '''' \<and> res_updated_at p = now) \<and>
        rows (snd (onRequestPatch db userId
                 (Inr (no_fields\<lparr>req_tag_layout := Some ''''\<rparr>)) now))
          userId = Some (r\<lparr>tag_layout := Some '''', updated_at := now\<rparr>)) \<and>
      (has_sort_by db \<longrightarrow>
        (\<exists>p. fst (onRequestPatch db userId
                 (Inr (no_fields\<lparr>req_sort_by := Some ''''\<rparr>)) now) =
               success p \<and> res_sort_by p = '''' \<and> res_updated_at p = now) \<and>
        rows (snd (onRequestPatch db userId
                 (Inr (no_fields\<lparr>req_sort_by := Some ''''\<rparr>)) now))
          userId = Some (r\<lparr>sort_by := Some '''', updated_at := now\<rparr>)))"
proof -
  let ?res = "fst (onRequestPatch db userId (Inr body) now)"
  have n1: "?res \<noteq> badRequest ''Invalid theme value''" if "req_theme body = Some ''''"
    using patch_badRequest [of db userId body now "''Invalid theme value''"] that
    by (auto simp add: validate_def invalid_enum_def split: if_splits)
  have n2: "?res \<noteq> badRequest ''Invalid view mode''" if "req_view_mode body = Some ''''"
    using patch_badRequest [of db userId body now "''Invalid view mode''"] that
    by (auto simp add: validate_def invalid_enum_def split: if_splits)
  have n3: "?res \<noteq> badRequest ''Invalid density value''" if "req_density body = Some ''''"
    using patch_badRequest [of db userId body now "''Invalid density value''"] that
    by (auto simp add: validate_def invalid_enum_def split: if_splits)
  have n4: "?res \<noteq> badRequest ''Invalid tag layout value''"
    if "req_tag_layout body = Some ''''"
    using patch_badRequest [of db userId body now "''Invalid tag layout value''"] that
    by (auto simp add: validate_def invalid_enum_def split: if_splits)
  have n5: "?res \<noteq> badRequest ''Invalid sort_by value''" if "req_sort_by body = Some ''''"
    using patch_badRequest [of db userId body now "''Invalid sort_by value''"] that
    by (auto simp add: validate_def invalid_enum_def split: if_splits)
  have m: "(req_theme body = Some '''' \<longrightarrow> SetTheme '''' \<in> set (build_updates body a b)) \<and>
   (req_view_mode body = Some '''' \<longrightarrow> SetViewMode '''' \<in> set (build_updates body a b)) \<and>
   (req_density body = Some '''' \<longrightarrow> SetDensity '''' \<in> set (build_updates body a b)) \<and>
   (req_tag_layout body = Some '''' \<longrightarrow>
      (SetTagLayout '''' \<in> set (build_updates body a b)) = a) \<and>
   (req_sort_by body = Some '''' \<longrightarrow>
      (SetSortBy '''' \<in> set (build_updates body a b)) = b)" for a b
    by (auto simp add: build_updates_def split: option.splits)
  have e: "(req_theme body = Some '''' \<longrightarrow>
         res_theme p = '''' \<and> map_option theme (rows db' userId) = Some '''') \<and>
      (req_view_mode body = Some '''' \<longrightarrow>
         res_view_mode p = '''' \<and> map_option view_mode (rows db' userId) = Some '''') \<and>
      (req_density body = Some '''' \<longrightarrow>
         res_density p = '''' \<and> map_option density (rows db' userId) = Some '''') \<and>
      (req_tag_layout body = Some '''' \<and> fst (hasTagLayoutColumn db) = Inr True \<longrightarrow>
         res_tag_layout p = '''' \<and>
         map_option tag_layout (rows db' userId) = Some (Some '''')) \<and>
      (req_sort_by body = Some '''' \<and>
       fst (hasSortByColumn (advance SelectTagLayout db)) = Inr True \<longrightarrow>
         res_sort_by p = '''' \<and>
         map_option sort_by (rows db' userId) = Some (Some ''''))"
    if run: "onRequestPatch db userId (Inr body) now = (success p, db')" for p db'
  proof -
    from patch_success [OF run] obtain a' b' r' where
      pa: "fst (hasTagLayoutColumn db) = Inr a'"
      and pb: "fst (hasSortByColumn (advance SelectTagLayout db)) = Inr b'"
      and row: "rows db userId = Some r'"
      and s: "if build_updates body a' b' = [] then
              masked_field body a' b' \<and> rows db' = rows db \<and> p = project (fetched db r') \<and>
              executed db' =
                executed db @ [SelectTagLayout, SelectSortBy, SelectByUserId userId]
            else
              rows db' =
                (rows db)(userId \<mapsto> foldl assign r' (build_updates body a' b' @ [SetUpdatedAt now])) \<and>
              p = project (fetched db
                    (foldl assign r' (build_updates body a' b' @ [SetUpdatedAt now]))) \<and>
              executed db' =
                executed db @
                [SelectTagLayout, SelectSortBy,
                 UpdateByUserId (build_updates body a' b' @ [SetUpdatedAt now]) userId,
                 SelectByUserId userId]"
      by blast
    define R where "R = foldl assign r' (build_updates body a' b' @ [SetUpdatedAt now])"
    note f = fields_after_updates [of r' body a' b' now, folded R_def]
    have ta: "has_tag_layout db" if "a'"
      using probe_tag_layout_sound [of db] pa that by simp
    have tb: "has_sort_by db" if "b'"
      using probe_sort_by_sound [of "advance SelectTagLayout db"] pb that by simp
    have c: "rows db' userId = Some R \<and> p = project (fetched db R)"
      if "build_updates body a' b' \<noteq> []"
      using s that by (simp add: R_def)
    have n: "build_updates body a' b' \<noteq> []"
      if "req_theme body = Some '''' \<or> req_view_mode body = Some '''' \<or>
          req_density body = Some '''' \<or> (req_tag_layout body = Some '''' \<and> a') \<or>
          (req_sort_by body = Some '''' \<and> b')"
      using that m [of a' b'] by auto
    show ?thesis
      using c n f pa pb ta tb
      by (auto simp add: project_def)
  qed
  have x: "(\<exists>p. fst (onRequestPatch db userId (Inr (no_fields\<lparr>req_theme := Some ''''\<rparr>)) now) =
             success p \<and> res_theme p = '''' \<and> res_updated_at p = now) \<and>
      rows (snd (onRequestPatch db userId (Inr (no_fields\<lparr>req_theme := Some ''''\<rparr>)) now))
        userId = Some (r\<lparr>theme := '''', updated_at := now\<rparr>) \<and>
      (\<exists>p. fst (onRequestPatch db userId (Inr (no_fields\<lparr>req_view_mode := Some ''''\<rparr>)) now) =
             success p \<and> res_view_mode p = '''' \<and> res_updated_at p = now) \<and>
      rows (snd (onRequestPatch db userId (Inr (no_fields\<lparr>req_view_mode := Some ''''\<rparr>)) now))
        userId = Some (r\<lparr>view_mode := '''', updated_at := now\<rparr>) \<and>
      (\<exists>p. fst (onRequestPatch db userId (Inr (no_fields\<lparr>req_density := Some ''''\<rparr>)) now) =
             success p \<and> res_density p = '''' \<and> res_updated_at p = now) \<and>
      rows (snd (onRequestPatch db userId (Inr (no_fields\<lparr>req_density := Some ''''\<rparr>)) now))
        userId = Some (r\<lparr>density := '''', updated_at := now\<rparr>) \<and>
      (has_tag_layout db \<longrightarrow>
        (\<exists>p. fst (onRequestPatch db userId
                 (Inr (no_fields\<lparr>req_tag_layout := Some ''''\<rparr>)) now) =
               success p \<and> res_tag_layout p = '''' \<and> res_updated_at p = now) \<and>
        rows (snd (onRequestPatch db userId
                 (Inr (no_fields\<lparr>req_tag_layout := Some ''''\<rparr>)) now))
          userId = Some (r\<lparr>tag_layout := Some '''', updated_at := now\<rparr>)) \<and>
      (has_sort_by db \<longrightarrow>
        (\<exists>p. fst (onRequestPatch db userId
                 (Inr (no_fields\<lparr>req_sort_by := Some ''''\<rparr>)) now) =
               success p \<and> res_sort_by p = '''' \<and> res_updated_at p = now) \<and>
        rows (snd (onRequestPatch db userId
                 (Inr (no_fields\<lparr>req_sort_by := Some ''''\<rparr>)) now))
          userId = Some (r\<lparr>sort_by := Some '''', updated_at := now\<rparr>))"
    if "faults db = []" and "rows db userId = Some r"
    using that
    by (simp add: patch_running_response patch_running_rows single_field_examples project_def)
  have c1: "req_theme body = Some [] \<longrightarrow>
      ?res \<noteq> badRequest ''Invalid theme value'' \<and>
      SetTheme [] \<in> set (build_updates body a b)"
    using n1 m [of a b] by blast
  have c2: "req_view_mode body = Some [] \<longrightarrow>
      ?res \<noteq> badRequest ''Invalid view mode'' \<and>
      SetViewMode [] \<in> set (build_updates body a b)"
    using n2 m [of a b] by blast
  have c3: "req_density body = Some [] \<longrightarrow>
      ?res \<noteq> badRequest ''Invalid density value'' \<and>
      SetDensity [] \<in> set (build_updates body a b)"
    using n3 m [of a b] by blast
  have c4: "req_tag_layout body = Some [] \<longrightarrow>
      ?res \<noteq> badRequest ''Invalid tag layout value'' \<and>
      (SetTagLayout [] \<in> set (build_updates body a b)) = a"
    using n4 m [of a b] by blast
  have c5: "req_sort_by body = Some [] \<longrightarrow>
      ?res \<noteq> badRequest ''Invalid sort_by value'' \<and>
      (SetSortBy [] \<in> set (build_updates body a b)) = b"
    using n5 m [of a b] by blast
  show ?thesis
    apply (intro conjI)
          apply (rule c1)
         apply (rule c2)
        apply (rule c3)
       apply (rule c4)
      apply (rule c5)
     apply (intro allI impI)
     apply (erule e)
    apply (rule impI)
    apply (erule conjE)
    apply (erule (1) x)
    done
qed

theorem empty_string_is_assigned_witness:
  "(\<exists>p. fst (onRequestPatch migrated ''u1'' (Inr (no_fields\<lparr>req_theme := Some ''''\<rparr>)) noon) =
         success p \<and> res_theme p = '''') \<and>
   map_option theme
     (rows (snd (onRequestPatch migrated ''u1'' (Inr (no_fields\<lparr>req_theme := Some ''''\<rparr>)) noon))
        ''u1'') = Some '''' \<and>
   (\<exists>p. fst (onRequestPatch migrated ''u1'' (Inr (no_fields\<lparr>req_view_mode := Some ''''\<rparr>)) noon) =
         success p \<and> res_view_mode p = '''') \<and>
   map_option view_mode
     (rows (snd (onRequestPatch migrated ''u1''
        (Inr (no_fields\<lparr>req_view_mode := Some ''''\<rparr>)) noon)) ''u1'') = Some '''' \<and>
   (\<exists>p. fst (onRequestPatch migrated ''u1'' (Inr (no_fields\<lparr>req_density := Some ''''\<rparr>)) noon) =
         success p \<and> res_density p = '''') \<and>
   map_option density
     (rows (snd (onRequestPatch migrated ''u1''
        (Inr (no_fields\<lparr>req_density := Some ''''\<rparr>)) noon)) ''u1'') = Some '''' \<and>
   (\<exists>p. fst (onRequestPatch migrated ''u1'' (Inr (no_fields\<lparr>req_tag_layout := Some ''''\<rparr>)) noon) =
         success p \<and> res_tag_layout p = '''') \<and>
   map_option tag_layout
     (rows (snd (onRequestPatch migrated ''u1''
        (Inr (no_fields\<lparr>req_tag_layout := Some ''''\<rparr>)) noon)) ''u1'') = Some (Some '''') \<and>
   (\<exists>p. fst (onRequestPatch migrated ''u1'' (Inr (no_fields\<lparr>req_sort_by := Some ''''\<rparr>)) noon) =
         success p \<and> res_sort_by p = '''') \<and>
   map_option sort_by
     (rows (snd (onRequestPatch migrated ''u1''
        (Inr (no_fields\<lparr>req_sort_by := Some ''''\<rparr>)) noon)) ''u1'') = Some (Some '''')"
proof -
  have f: "faults migrated = []" and r: "rows migrated ''u1'' = Some row1"
    and t: "has_tag_layout migrated" and s: "has_sort_by migrated"
    by simp_all
  note T = empty_string_is_assigned [of no_fields migrated "''u1''" noon True True row1]
  note L = T [THEN conjunct2, THEN conjunct2, THEN conjunct2, THEN conjunct2,
      THEN conjunct2, THEN conjunct2, THEN mp, OF conjI [OF f r]]
  from L t s show ?thesis
    by (simp add: row1_def) blast
qed

text \<open>
  C10 as worded, "for every string-valued field ... still appended to the
  column-assignment list (the presence check requires only not-undefined)", does not hold
  for the two optional fields: on a table without \<^verbatim>\<open>tag_layout\<close> the body
  \<^verbatim>\<open>{tag_layout: ""}\<close> yields an empty assignment list, no \<^verbatim>\<open>UPDATE\<close> and an
  unchanged table.
\<close>

theorem empty_tag_layout_is_dropped_without_the_column:
  "req_tag_layout (no_fields\<lparr>req_tag_layout := Some ''''\<rparr>) = Some '''' \<and>
   build_updates (no_fields\<lparr>req_tag_layout := Some ''''\<rparr>) False False = [] \<and>
   fst (onRequestPatch unmigrated ''u1'' (Inr (no_fields\<lparr>req_tag_layout := Some ''''\<rparr>)) noon) =
     success
       \<lparr>res_theme = ''light'', res_page_size = 20, res_view_mode = ''list'',
        res_density = ''normal'', res_tag_layout = ''grid'', res_sort_by = ''popular'',
        res_updated_at = ''2025-01-01T00:00:00.000Z''\<rparr> \<and>
   rows (snd (onRequestPatch unmigrated ''u1''
     (Inr (no_fields\<lparr>req_tag_layout := Some ''''\<rparr>)) noon)) = rows unmigrated \<and>
   executed (snd (onRequestPatch unmigrated ''u1''
     (Inr (no_fields\<lparr>req_tag_layout := Some ''''\<rparr>)) noon)) =
     [SelectTagLayout, SelectSortBy, SelectByUserId ''u1'']"
  by (simp add: patch_running_response patch_running_rows patch_running_executed
      project_def row1_def)

end
